theory Spec2Isabelle
  imports Complex_Main "HOL-Library.Sublist"
begin

section \<open>Data model of sky/spot/recovery_strategy.py\<close>

text \<open>
  The module is a control loop over external collaborators (provisioning, cluster registry,
  job runtime, signal delivery). The collaborators are not part of the module: they are the
  fields of an environment record, each a function of an abstract world \<open>'w\<close> that returns
  its reply and the next world. Every call of a collaborator is appended to a trace, so that
  the order of calls can be stated. Loops that the source writes as \<open>while True\<close> take a
  fuel argument that bounds the number of iterations; running out of fuel is the outcome
  \<open>OutOfFuel\<close>, which stands for "has not returned yet".
\<close>

datatype exn =
    AssertionError
  | KeyError string
  | AttributeError
  | RuntimeError
  | ResourcesUnavailableError
  | IndexError
  | CommandError
  | SpotUserCancelledError
  | OtherError string

datatype 'a reply = Value 'a | Raises exn

datatype 'a outcome = Return 'a | Raise exn | OutOfFuel

datatype cluster_status = INIT | UP | STOPPED

datatype job_status = JOB_INIT | JOB_PENDING | JOB_OTHER string

text \<open>\<open>sky.Resources\<close>: the fields this module reads.\<close>

record Resources =
  cloud :: string
  region :: string
  zone :: string
  spot_recovery :: "string option"

record task =
  resources :: "Resources set"

record handle =
  launched_resources :: Resources

text \<open>The outcome of the \<open>try\<close> block around \<open>sky.launch\<close>; a failure carries \<open>str(e)\<close>.\<close>

datatype launch_reply = Launched | LaunchFailed string

datatype event =
    SignalHandler "unit reply"
  | SkyLaunch "string set" "string set" launch_reply
  | GetClusterFromName "int option"
  | UpdateNumTriedLocations int int
  | RefreshClusterStatus "cluster_status reply"
  | Sleep real
  | CurrentBackoff real
  | GetJobStatus "job_status option reply"
  | GetJobTimestamp "real reply"
  | GetHandle "handle option"
  | Teardown handle bool
  | CancelJobs "handle option" "unit reply"

datatype strategy_class = FailoverStrategyExecutor | CrossRegion

text \<open>The attributes that \<open>StrategyExecutor.__init__\<close> sets, and the class of the instance.\<close>

record executor =
  strategy :: strategy_class
  dag :: "task list"
  cluster_name :: string
  retry_until_up :: bool
  job_id :: int
  blocked_regions :: "string set"
  blocked_zones :: "string set"

record 'w state = executor +
  world :: 'w
  trace :: "event list"

text \<open>
  The collaborators and the constants of other modules. \<open>common_utils.Backoff\<close>,
  \<open>spot_utils.MAX_JOB_CHECKING_RETRY\<close> and
  \<open>spot_utils.JOB_STARTED_STATUS_CHECK_GAP_SECONDS\<close> are defined outside this module and are
  parameters here: \<open>Backoff\<close> is the constructor, \<open>current_backoff\<close> the method, \<open>'b\<close> the
  type of the backoff object.
\<close>

record ('w, 'b) env =
  signal_handler :: "'w \<Rightarrow> unit reply \<times> 'w"
  sky_launch :: "task list \<Rightarrow> string \<Rightarrow> string set \<Rightarrow> string set \<Rightarrow> 'w \<Rightarrow> launch_reply \<times> 'w"
  get_cluster_from_name :: "string \<Rightarrow> 'w \<Rightarrow> int option \<times> 'w"
  update_num_tried_locations :: "int \<Rightarrow> int \<Rightarrow> 'w \<Rightarrow> 'w"
  refresh_cluster_status_handle :: "string \<Rightarrow> 'w \<Rightarrow> cluster_status reply \<times> 'w"
  get_job_status :: "string \<Rightarrow> 'w \<Rightarrow> job_status option reply \<times> 'w"
  get_job_timestamp :: "string \<Rightarrow> 'w \<Rightarrow> real reply \<times> 'w"
  get_handle_from_cluster_name :: "string \<Rightarrow> 'w \<Rightarrow> handle option \<times> 'w"
  teardown :: "handle \<Rightarrow> 'w \<Rightarrow> bool \<times> 'w"
  cancel_jobs :: "handle option \<Rightarrow> 'w \<Rightarrow> unit reply \<times> 'w"
  time_sleep :: "real \<Rightarrow> 'w \<Rightarrow> 'w"
  os_environ_get :: "string \<Rightarrow> string option"
  MAX_JOB_CHECKING_RETRY :: int
  JOB_STARTED_STATUS_CHECK_GAP_SECONDS :: real
  Backoff :: "real \<Rightarrow> 'b"
  current_backoff :: "'b \<Rightarrow> real \<times> 'b"

definition RETRY_INIT_GAP_SECONDS :: real where
  "RETRY_INIT_GAP_SECONDS = 60"

section \<open>The strategy registry and the factory\<close>

text \<open>
  \<open>__init_subclass__\<close>: registers the class under its name; a second default trips the
  assertion. The registry is the pair of \<open>SPOT_STRATEGIES\<close> and \<open>SPOT_DEFAULT_STRATEGY\<close>.
\<close>

type_synonym registry = "(string \<rightharpoonup> strategy_class) \<times> string option"

definition init_subclass :: "registry \<Rightarrow> strategy_class \<Rightarrow> string \<Rightarrow> bool \<Rightarrow> exn + registry" where
  "init_subclass reg cls name is_default =
     (let strategies = (fst reg)(name \<mapsto> cls) in
      if is_default then
        (if snd reg = None then Inr (strategies, Some name) else Inl AssertionError)
      else Inr (strategies, snd reg))"

text \<open>The two class statements of the module, in order.\<close>

definition SPOT_STRATEGIES :: "string \<rightharpoonup> strategy_class" where
  "SPOT_STRATEGIES =
     [''FAILOVER'' \<mapsto> FailoverStrategyExecutor, ''CROSS_REGION'' \<mapsto> CrossRegion]"

definition SPOT_DEFAULT_STRATEGY :: "string option" where
  "SPOT_DEFAULT_STRATEGY = Some ''FAILOVER''"

definition init :: "strategy_class \<Rightarrow> string \<Rightarrow> task \<Rightarrow> bool \<Rightarrow> int \<Rightarrow> executor" where
  "init cls name t until_up jid =
     \<lparr> strategy = cls, dag = [t], cluster_name = name, retry_until_up = until_up,
       job_id = jid, blocked_regions = {}, blocked_zones = {} \<rparr>"

text \<open>
  \<open>StrategyExecutor.make\<close>. The second component is the caller's task object after the
  call: \<open>task.set_resources\<close> mutates it before the registry is looked up.
\<close>

definition make :: "string \<Rightarrow> task \<Rightarrow> bool \<Rightarrow> int \<Rightarrow> (exn + executor) \<times> task" where
  "make name t until_up jid =
     (if card (resources t) \<noteq> 1 then (Inl AssertionError, t)
      else
        let r = the_elem (resources t) in
        case spot_recovery r of
          None \<Rightarrow> (Inl AssertionError, t)
        | Some policy \<Rightarrow>
            let t' = t\<lparr>resources := {r\<lparr>spot_recovery := None\<rparr>}\<rparr> in
            (case SPOT_STRATEGIES policy of
               None \<Rightarrow> (Inl (KeyError policy), t')
             | Some cls \<Rightarrow> (Inr (init cls name t' until_up jid), t')))"

section \<open>Calls of the collaborators\<close>

definition emit :: "event \<Rightarrow> 'w state \<Rightarrow> 'w state" where
  "emit e s = s\<lparr>trace := trace s @ [e]\<rparr>"

definition call_signal_handler :: "('w, 'b) env \<Rightarrow> 'w state \<Rightarrow> unit reply \<times> 'w state" where
  "call_signal_handler env s =
     (let rw = signal_handler env (world s)
      in (fst rw, emit (SignalHandler (fst rw)) (s\<lparr>world := snd rw\<rparr>)))"

definition call_sky_launch :: "('w, 'b) env \<Rightarrow> 'w state \<Rightarrow> launch_reply \<times> 'w state" where
  "call_sky_launch env s =
     (let rw = sky_launch env (dag s) (cluster_name s) (blocked_regions s) (blocked_zones s)
                 (world s)
      in (fst rw,
          emit (SkyLaunch (blocked_regions s) (blocked_zones s) (fst rw)) (s\<lparr>world := snd rw\<rparr>)))"

definition call_get_cluster_from_name :: "('w, 'b) env \<Rightarrow> 'w state \<Rightarrow> int option \<times> 'w state" where
  "call_get_cluster_from_name env s =
     (let rw = get_cluster_from_name env (cluster_name s) (world s)
      in (fst rw, emit (GetClusterFromName (fst rw)) (s\<lparr>world := snd rw\<rparr>)))"

definition call_update_num_tried_locations :: "('w, 'b) env \<Rightarrow> int \<Rightarrow> 'w state \<Rightarrow> 'w state" where
  "call_update_num_tried_locations env n s =
     emit (UpdateNumTriedLocations (job_id s) n)
       (s\<lparr>world := update_num_tried_locations env (job_id s) n (world s)\<rparr>)"

definition call_refresh_cluster_status_handle ::
  "('w, 'b) env \<Rightarrow> 'w state \<Rightarrow> cluster_status reply \<times> 'w state" where
  "call_refresh_cluster_status_handle env s =
     (let rw = refresh_cluster_status_handle env (cluster_name s) (world s)
      in (fst rw, emit (RefreshClusterStatus (fst rw)) (s\<lparr>world := snd rw\<rparr>)))"

definition call_get_job_status ::
  "('w, 'b) env \<Rightarrow> 'w state \<Rightarrow> job_status option reply \<times> 'w state" where
  "call_get_job_status env s =
     (let rw = get_job_status env (cluster_name s) (world s)
      in (fst rw, emit (GetJobStatus (fst rw)) (s\<lparr>world := snd rw\<rparr>)))"

definition call_get_job_timestamp :: "('w, 'b) env \<Rightarrow> 'w state \<Rightarrow> real reply \<times> 'w state" where
  "call_get_job_timestamp env s =
     (let rw = get_job_timestamp env (cluster_name s) (world s)
      in (fst rw, emit (GetJobTimestamp (fst rw)) (s\<lparr>world := snd rw\<rparr>)))"

definition call_get_handle_from_cluster_name ::
  "('w, 'b) env \<Rightarrow> 'w state \<Rightarrow> handle option \<times> 'w state" where
  "call_get_handle_from_cluster_name env s =
     (let rw = get_handle_from_cluster_name env (cluster_name s) (world s)
      in (fst rw, emit (GetHandle (fst rw)) (s\<lparr>world := snd rw\<rparr>)))"

definition call_teardown :: "('w, 'b) env \<Rightarrow> handle \<Rightarrow> 'w state \<Rightarrow> bool \<times> 'w state" where
  "call_teardown env h s =
     (let rw = teardown env h (world s)
      in (fst rw, emit (Teardown h (fst rw)) (s\<lparr>world := snd rw\<rparr>)))"

definition call_cancel_jobs :: "('w, 'b) env \<Rightarrow> handle option \<Rightarrow> 'w state \<Rightarrow> unit reply \<times> 'w state" where
  "call_cancel_jobs env h s =
     (let rw = cancel_jobs env h (world s)
      in (fst rw, emit (CancelJobs h (fst rw)) (s\<lparr>world := snd rw\<rparr>)))"

definition call_time_sleep :: "('w, 'b) env \<Rightarrow> real \<Rightarrow> 'w state \<Rightarrow> 'w state" where
  "call_time_sleep env gap s = emit (Sleep gap) (s\<lparr>world := time_sleep env gap (world s)\<rparr>)"

text \<open>
  \<open>gap_seconds = backoff.current_backoff(); time.sleep(gap_seconds)\<close>: returns the
  advanced backoff object.
\<close>

definition backoff_and_sleep :: "('w, 'b) env \<Rightarrow> 'b \<Rightarrow> 'w state \<Rightarrow> 'b \<times> 'w state" where
  "backoff_and_sleep env backoff s =
     (let gb = current_backoff env backoff
      in (snd gb, call_time_sleep env (fst gb) (emit (CurrentBackoff (fst gb)) s)))"

section \<open>\<open>StrategyExecutor.terminate_cluster\<close>\<close>

text \<open>
  The \<open>while True\<close> loop of \<open>terminate_cluster\<close>, entered with the handle and the current
  \<open>retry_cnt\<close>. It ends after at most \<open>max_retry\<close> teardowns (one, when \<open>max_retry \<le> 1\<close>),
  so it needs no fuel.
\<close>

function terminate_loop ::
  "('w, 'b) env \<Rightarrow> handle \<Rightarrow> int \<Rightarrow> int \<Rightarrow> 'w state \<Rightarrow> unit outcome \<times> 'w state" where
  "terminate_loop env h max_retry retry_cnt s =
     (let r = call_teardown env h s in
      if fst r then (Return (), snd r)
      else if retry_cnt + 1 \<ge> max_retry then (Raise RuntimeError, snd r)
      else terminate_loop env h max_retry (retry_cnt + 1) (snd r))"
  by pat_completeness auto
termination
  by (relation "measure (\<lambda>(env, h, max_retry, retry_cnt, s). nat (max_retry - retry_cnt))") auto

definition terminate_cluster :: "('w, 'b) env \<Rightarrow> int \<Rightarrow> 'w state \<Rightarrow> unit outcome \<times> 'w state" where
  "terminate_cluster env max_retry s =
     (let r = call_get_handle_from_cluster_name env s in
      case fst r of
        None \<Rightarrow> (Return (), snd r)
      | Some h \<Rightarrow> terminate_loop env h max_retry 0 (snd r))"

section \<open>\<open>StrategyExecutor._launch\<close>\<close>

definition exhausted_message :: string where
  "exhausted_message = ''Failed to provision all possible launchable resources''"

text \<open>The blocklist part of the \<open>except\<close> block: \<open>str(e)\<close> is searched for the message.\<close>

definition clear_if_exhausted :: "string \<Rightarrow> 'w state \<Rightarrow> 'w state" where
  "clear_if_exhausted msg s =
     (if sublist exhausted_message msg then s\<lparr>blocked_regions := {}, blocked_zones := {}\<rparr>
      else s)"

text \<open>Lines 183 to 190: the record of the cluster, when there is one, gives the telemetry.\<close>

definition record_tried_locations :: "('w, 'b) env \<Rightarrow> 'w state \<Rightarrow> 'w state" where
  "record_tried_locations env s =
     (let r = call_get_cluster_from_name env s in
      case fst r of
        None \<Rightarrow> snd r
      | Some n \<Rightarrow> call_update_num_tried_locations env n (snd r))"

text \<open>
  How the job-status loop is left: by the \<open>return launch_time\<close> inside it, by a \<open>break\<close>
  (each one sets \<open>retry_launch\<close>), or because its condition is false.
\<close>

datatype poll_exit = PollReturn real | PollBreak | PollExit

function poll_loop ::
  "('w, 'b) env \<Rightarrow> job_status option \<Rightarrow> int \<Rightarrow> 'w state \<Rightarrow> poll_exit \<times> 'w state" where
  "poll_loop env status job_checking_retry_cnt s =
     (if (status = None \<or> status \<in> {Some JOB_INIT, Some JOB_PENDING})
         \<and> job_checking_retry_cnt < MAX_JOB_CHECKING_RETRY env
      then
        (let r1 = call_refresh_cluster_status_handle env s in
         case fst r1 of
           Raises e \<Rightarrow> (PollBreak, snd r1)
         | Value cluster_status \<Rightarrow>
             if cluster_status \<noteq> UP then (PollBreak, snd r1)
             else
               (let r2 = call_get_job_status env
                           (call_time_sleep env (JOB_STARTED_STATUS_CHECK_GAP_SECONDS env) (snd r1))
                in case fst r2 of
                     Raises e \<Rightarrow> (PollBreak, snd r2)
                   | Value None \<Rightarrow> poll_loop env None (job_checking_retry_cnt + 1) (snd r2)
                   | Value (Some st) \<Rightarrow>
                       (let r3 = call_get_job_timestamp env (snd r2) in
                        case fst r3 of
                          Raises e \<Rightarrow> (PollBreak, snd r3)
                        | Value launch_time \<Rightarrow> (PollReturn launch_time, snd r3))))
      else (PollExit, s))"
  by pat_completeness auto
termination
  by (relation "measure (\<lambda>(env, status, cnt, s). nat (MAX_JOB_CHECKING_RETRY env - cnt))") auto

text \<open>
  The outer \<open>while True\<close> loop of \<open>_launch\<close>, entered with the current \<open>retry_cnt\<close> and
  backoff object. After the job-status loop, \<open>launch_time\<close> is still \<open>None\<close> unless the
  loop returned, so the final \<open>return launch_time\<close> returns \<open>None\<close>.
\<close>

fun launch_loop ::
  "('w, 'b) env \<Rightarrow> nat \<Rightarrow> int option \<Rightarrow> bool \<Rightarrow> int \<Rightarrow> 'b \<Rightarrow> 'w state
     \<Rightarrow> real option outcome \<times> 'w state" where
  "launch_loop env 0 max_retry raise_on_failure retry_cnt backoff s = (OutOfFuel, s)"
| "launch_loop env (Suc fuel) max_retry raise_on_failure retry_cnt backoff s =
     (let r1 = call_signal_handler env s in
      case fst r1 of
        Raises e \<Rightarrow> (Raise e, snd r1)
      | Value _ \<Rightarrow>
          (let r2 = call_sky_launch env (snd r1) in
           case fst r2 of
             LaunchFailed msg \<Rightarrow>
               (let s3 = clear_if_exhausted msg (snd r2) in
                if max_retry \<noteq> None \<and> retry_cnt + 1 \<ge> the max_retry then
                  (if raise_on_failure then (Raise ResourcesUnavailableError, s3)
                   else (Return None, s3))
                else
                  (let r4 = backoff_and_sleep env backoff s3 in
                   launch_loop env fuel max_retry raise_on_failure (retry_cnt + 1)
                     (fst r4) (snd r4)))
           | Launched \<Rightarrow>
               (let r3 = poll_loop env None 0 (record_tried_locations env (snd r2)) in
                case fst r3 of
                  PollReturn launch_time \<Rightarrow> (Return (Some launch_time), snd r3)
                | PollBreak \<Rightarrow>
                    (let r4 = backoff_and_sleep env backoff (snd r3) in
                     launch_loop env fuel max_retry raise_on_failure (retry_cnt + 1)
                       (fst r4) (snd r4))
                | PollExit \<Rightarrow> (Return None, snd r3))))"

definition launch_impl ::
  "('w, 'b) env \<Rightarrow> nat \<Rightarrow> int option \<Rightarrow> bool \<Rightarrow> 'w state \<Rightarrow> real option outcome \<times> 'w state" where
  "launch_impl env fuel max_retry raise_on_failure s =
     launch_loop env fuel max_retry raise_on_failure 0 (Backoff env RETRY_INIT_GAP_SECONDS) s"

text \<open>\<open>StrategyExecutor.launch\<close>; the defaults of \<open>_launch\<close> are \<open>max_retry=3\<close> and \<open>raise_on_failure=True\<close>.\<close>

definition launch :: "('w, 'b) env \<Rightarrow> nat \<Rightarrow> 'w state \<Rightarrow> real option outcome \<times> 'w state" where
  "launch env fuel s =
     (if retry_until_up s then launch_impl env fuel None True s
      else launch_impl env fuel (Some 3) True s)"

section \<open>\<open>recover\<close> of the two strategies\<close>

text \<open>
  \<open>try: self.backend.cancel_jobs(handle, jobs=None) except exceptions.CommandError\<close>:
  the exception that leaves the \<open>try\<close> statement, if any.
\<close>

definition uncaught_by_cancel :: "unit reply \<Rightarrow> exn option" where
  "uncaught_by_cancel r =
     (case r of
        Value _ \<Rightarrow> None
      | Raises e \<Rightarrow> if e = CommandError then None else Some e)"

text \<open>
  The \<open>while True\<close> loop of \<open>FailoverStrategyExecutor.recover\<close>, entered with the local
  variable \<open>handle\<close>. Lines 274 and 275 index \<open>self.dag.tasks\<close> and the list of the
  task's resources at 0. Line 279 reads \<open>handle.launched_resources\<close> at the top of every
  iteration, and line 309 may have set \<open>handle\<close> to \<open>None\<close> in the iteration before.
\<close>

fun failover_recover_loop ::
  "('w, 'b) env \<Rightarrow> nat \<Rightarrow> handle option \<Rightarrow> 'w state \<Rightarrow> real outcome \<times> 'w state" where
  "failover_recover_loop env 0 hd_opt s = (OutOfFuel, s)"
| "failover_recover_loop env (Suc fuel) hd_opt s =
     (if dag s = [] \<or> resources (hd (dag s)) = {} then (Raise IndexError, s)
      else case hd_opt of
        None \<Rightarrow> (Raise AttributeError, s)
      | Some h \<Rightarrow>
          (let r1 = terminate_cluster env 3 s in
           case fst r1 of
             Raise e \<Rightarrow> (Raise e, snd r1)
           | OutOfFuel \<Rightarrow> (OutOfFuel, snd r1)
           | Return _ \<Rightarrow>
               (let r2 = launch_impl env fuel (Some 3) False (snd r1) in
                case fst r2 of
                  Raise e \<Rightarrow> (Raise e, snd r2)
                | OutOfFuel \<Rightarrow> (OutOfFuel, snd r2)
                | Return (Some launched_time) \<Rightarrow> (Return launched_time, snd r2)
                | Return None \<Rightarrow>
                    (let r3 = call_get_handle_from_cluster_name env (snd r2);
                         s4 = (case fst r3 of
                                 None \<Rightarrow> snd r3
                               | Some h' \<Rightarrow>
                                   (snd r3)\<lparr>blocked_zones :=
                                     insert (zone (launched_resources h')) (blocked_zones (snd r3))\<rparr>)
                     in if retry_until_up s4 then
                          failover_recover_loop env fuel (fst r3)
                            (call_time_sleep env RETRY_INIT_GAP_SECONDS s4)
                        else (Raise ResourcesUnavailableError, s4)))))"

text \<open>
  \<open>FailoverStrategyExecutor.recover\<close>. \<open>cancel_jobs\<close> is called with the handle as it is;
  only \<open>CommandError\<close> is caught. Line 264 reads \<open>handle.launched_resources\<close>, which raises
  \<open>AttributeError\<close> on \<open>None\<close>.
\<close>

definition failover_recover :: "('w, 'b) env \<Rightarrow> nat \<Rightarrow> 'w state \<Rightarrow> real outcome \<times> 'w state" where
  "failover_recover env fuel s =
     (let r1 = call_get_handle_from_cluster_name env s;
          r2 = call_cancel_jobs env (fst r1) (snd r1)
      in case uncaught_by_cancel (fst r2) of
           Some e \<Rightarrow> (Raise e, snd r2)
         | None \<Rightarrow>
           (case fst r1 of
              None \<Rightarrow> (Raise AttributeError, snd r2)
            | Some h \<Rightarrow>
                failover_recover_loop env fuel (fst r1)
                  ((snd r2)\<lparr>blocked_zones :=
                     insert (zone (launched_resources h)) (blocked_zones (snd r2))\<rparr>)))"

text \<open>The \<open>while True\<close> loop of \<open>CrossRegion.recover\<close>.\<close>

fun cross_region_recover_loop ::
  "('w, 'b) env \<Rightarrow> nat \<Rightarrow> 'w state \<Rightarrow> real outcome \<times> 'w state" where
  "cross_region_recover_loop env 0 s = (OutOfFuel, s)"
| "cross_region_recover_loop env (Suc fuel) s =
     (let r1 = terminate_cluster env 3 s in
      case fst r1 of
        Raise e \<Rightarrow> (Raise e, snd r1)
      | OutOfFuel \<Rightarrow> (OutOfFuel, snd r1)
      | Return _ \<Rightarrow>
          (let r2 = launch_impl env fuel (Some 3) False (snd r1) in
           case fst r2 of
             Raise e \<Rightarrow> (Raise e, snd r2)
           | OutOfFuel \<Rightarrow> (OutOfFuel, snd r2)
           | Return (Some launched_time) \<Rightarrow> (Return launched_time, snd r2)
           | Return None \<Rightarrow>
               (let r3 = call_get_handle_from_cluster_name env (snd r2);
                    s4 = (case fst r3 of
                            None \<Rightarrow> snd r3
                          | Some h' \<Rightarrow>
                              (snd r3)\<lparr>blocked_regions :=
                                  insert (region (launched_resources h')) (blocked_regions (snd r3)),
                                blocked_zones :=
                                  insert (zone (launched_resources h')) (blocked_zones (snd r3))\<rparr>)
                in if retry_until_up s4 then
                     cross_region_recover_loop env fuel
                       (call_time_sleep env RETRY_INIT_GAP_SECONDS s4)
                   else (Raise ResourcesUnavailableError, s4))))"

text \<open>\<open>CrossRegion.recover\<close>; \<open>os.environ.get('_CROSS_REGION')\<close> is the force-cross-region flag.\<close>

definition cross_region_recover :: "('w, 'b) env \<Rightarrow> nat \<Rightarrow> 'w state \<Rightarrow> real outcome \<times> 'w state" where
  "cross_region_recover env fuel s =
     (let r1 = call_get_handle_from_cluster_name env s;
          r2 = call_cancel_jobs env (fst r1) (snd r1)
      in case uncaught_by_cancel (fst r2) of
           Some e \<Rightarrow> (Raise e, snd r2)
         | None \<Rightarrow>
           (case fst r1 of
              None \<Rightarrow> (Raise AttributeError, snd r2)
            | Some h \<Rightarrow>
                (let s3 = (snd r2)\<lparr>blocked_zones :=
                            insert (zone (launched_resources h)) (blocked_zones (snd r2))\<rparr>;
                     s4 = (if os_environ_get env ''_CROSS_REGION'' \<noteq> None
                           then s3\<lparr>blocked_regions :=
                                  insert (region (launched_resources h)) (blocked_regions s3)\<rparr>
                           else s3)
                 in cross_region_recover_loop env fuel s4)))"

section \<open>Observations on runs\<close>

text \<open>The events that a run from \<open>s\<close> to \<open>s'\<close> has added to the trace.\<close>

definition new_events :: "'w state \<Rightarrow> 'w state \<Rightarrow> event list" where
  "new_events s s' = drop (length (trace s)) (trace s')"

text \<open>Nothing but the world and the trace differs between \<open>s\<close> and \<open>s'\<close>.\<close>

definition unchanged :: "'w state \<Rightarrow> 'w state \<Rightarrow> bool" where
  "unchanged s s' \<longleftrightarrow> s' = s\<lparr>world := world s', trace := trace s'\<rparr>"

text \<open>
  The world after \<open>k\<close> calls of the backend's \<open>teardown\<close> on \<open>h\<close>, starting from \<open>w\<close>.
\<close>

fun teardown_world :: "('w, 'b) env \<Rightarrow> handle \<Rightarrow> 'w \<Rightarrow> nat \<Rightarrow> 'w" where
  "teardown_world env h w 0 = w"
| "teardown_world env h w (Suc k) = teardown_world env h (snd (teardown env h w)) k"

section \<open>A concrete environment\<close>

text \<open>
  An environment to run the definitions on. Its world counts the calls of \<open>sky.launch\<close> and
  of \<open>teardown\<close>; the reply of \<open>sky.launch\<close>, of the status refresh and of \<open>teardown\<close> may
  depend on that count, the other replies are fixed. Its backoff object is the next
  interval: it starts at the base and doubles on every call.
\<close>

definition demo_env ::
  "(nat \<Rightarrow> launch_reply) \<Rightarrow> (nat \<Rightarrow> cluster_status reply) \<Rightarrow> job_status option reply
     \<Rightarrow> handle option \<Rightarrow> (nat \<Rightarrow> bool) \<Rightarrow> unit reply \<Rightarrow> string option \<Rightarrow> (nat, real) env" where
  "demo_env launches statuses job h teardowns sig flag =
     \<lparr> signal_handler = (\<lambda>w. (sig, w)),
       sky_launch = (\<lambda>d n br bz w. (launches w, Suc w)),
       get_cluster_from_name = (\<lambda>n w. (Some 1, w)),
       update_num_tried_locations = (\<lambda>j n w. w),
       refresh_cluster_status_handle = (\<lambda>n w. (statuses w, w)),
       get_job_status = (\<lambda>n w. (job, w)),
       get_job_timestamp = (\<lambda>n w. (Value 1000, w)),
       get_handle_from_cluster_name = (\<lambda>n w. (h, w)),
       teardown = (\<lambda>h w. (teardowns w, Suc w)),
       cancel_jobs = (\<lambda>h w. (Value (), w)),
       time_sleep = (\<lambda>g w. w),
       os_environ_get = (\<lambda>k. if k = ''_CROSS_REGION'' then flag else None),
       MAX_JOB_CHECKING_RETRY = 2,
       JOB_STARTED_STATUS_CHECK_GAP_SECONDS = 5,
       Backoff = (\<lambda>b. b),
       current_backoff = (\<lambda>b. (b, 2 * b)) \<rparr>"

definition demo_resources :: Resources where
  "demo_resources =
     \<lparr> cloud = ''gcp'', region = ''us-west1'', zone = ''us-west1-a'',
       spot_recovery = Some ''FAILOVER'' \<rparr>"

definition demo_handle :: handle where
  "demo_handle = \<lparr> launched_resources = demo_resources \<rparr>"

definition demo_state :: "strategy_class \<Rightarrow> bool \<Rightarrow> nat state" where
  "demo_state cls until_up =
     \<lparr> strategy = cls, dag = [\<lparr> resources = {demo_resources\<lparr>spot_recovery := None\<rparr>} \<rparr>],
       cluster_name = ''spot-1'', retry_until_up = until_up, job_id = 7,
       blocked_regions = {}, blocked_zones = {}, world = 0, trace = [] \<rparr>"

section \<open>Vocabulary for runs\<close>

definition grows :: "'w state \<Rightarrow> 'w state \<Rightarrow> bool" where
  "grows s s' \<longleftrightarrow> trace s' = trace s @ new_events s s'"

fun is_poll_event :: "event \<Rightarrow> bool" where
  "is_poll_event (RefreshClusterStatus r) = True"
| "is_poll_event (Sleep g) = True"
| "is_poll_event (GetJobStatus r) = True"
| "is_poll_event (GetJobTimestamp r) = True"
| "is_poll_event e = False"

definition poll_round :: "('w, 'b) env \<Rightarrow> event list" where
  "poll_round env =
     [RefreshClusterStatus (Value UP), Sleep (JOB_STARTED_STATUS_CHECK_GAP_SECONDS env),
      GetJobStatus (Value None)]"

datatype poll_step = PollDone poll_exit | PollAgain

text \<open>One pass through the body of the job-status loop.\<close>

definition poll_iteration :: "('w, 'b) env \<Rightarrow> 'w state \<Rightarrow> poll_step \<times> 'w state" where
  "poll_iteration env s =
     (let r1 = call_refresh_cluster_status_handle env s in
      case fst r1 of
        Raises e \<Rightarrow> (PollDone PollBreak, snd r1)
      | Value cluster_status \<Rightarrow>
          if cluster_status \<noteq> UP then (PollDone PollBreak, snd r1)
          else
            (let r2 = call_get_job_status env
                        (call_time_sleep env (JOB_STARTED_STATUS_CHECK_GAP_SECONDS env) (snd r1))
             in case fst r2 of
                  Raises e \<Rightarrow> (PollDone PollBreak, snd r2)
                | Value None \<Rightarrow> (PollAgain, snd r2)
                | Value (Some st) \<Rightarrow>
                    (let r3 = call_get_job_timestamp env (snd r2) in
                     case fst r3 of
                       Raises e \<Rightarrow> (PollDone PollBreak, snd r3)
                     | Value launch_time \<Rightarrow> (PollDone (PollReturn launch_time), snd r3))))"

fun is_record_event :: "event \<Rightarrow> bool" where
  "is_record_event (GetClusterFromName r) = True"
| "is_record_event (UpdateNumTriedLocations j n) = True"
| "is_record_event e = False"

text \<open>The run from \<open>s\<close> to \<open>s'\<close> made the calls \<open>es\<close> and changed nothing but the world.\<close>

definition steps :: "'w state \<Rightarrow> event list \<Rightarrow> 'w state \<Rightarrow> bool" where
  "steps s es s' \<longleftrightarrow> unchanged s s' \<and> trace s' = trace s @ es"

text \<open>
  One pass through the body of the outer loop of \<open>_launch\<close>: either the call is over, or
  the loop goes round again with the advanced backoff object.
\<close>

datatype 'b launch_step = Done "real option outcome" | Again 'b

definition launch_iteration ::
  "('w, 'b) env \<Rightarrow> int option \<Rightarrow> bool \<Rightarrow> int \<Rightarrow> 'b \<Rightarrow> 'w state \<Rightarrow> 'b launch_step \<times> 'w state" where
  "launch_iteration env max_retry raise_on_failure retry_cnt backoff s =
     (let r1 = call_signal_handler env s in
      case fst r1 of
        Raises e \<Rightarrow> (Done (Raise e), snd r1)
      | Value _ \<Rightarrow>
          (let r2 = call_sky_launch env (snd r1) in
           case fst r2 of
             LaunchFailed msg \<Rightarrow>
               (let s3 = clear_if_exhausted msg (snd r2) in
                if max_retry \<noteq> None \<and> retry_cnt + 1 \<ge> the max_retry then
                  (if raise_on_failure then (Done (Raise ResourcesUnavailableError), s3)
                   else (Done (Return None), s3))
                else
                  (let r4 = backoff_and_sleep env backoff s3 in (Again (fst r4), snd r4)))
           | Launched \<Rightarrow>
               (let r3 = poll_loop env None 0 (record_tried_locations env (snd r2)) in
                case fst r3 of
                  PollReturn launch_time \<Rightarrow> (Done (Return (Some launch_time)), snd r3)
                | PollBreak \<Rightarrow>
                    (let r4 = backoff_and_sleep env backoff (snd r3) in (Again (fst r4), snd r4))
                | PollExit \<Rightarrow> (Done (Return None), snd r3))))"

fun is_sky_launch :: "event \<Rightarrow> bool" where
  "is_sky_launch (SkyLaunch br bz r) = True"
| "is_sky_launch e = False"

text \<open>
  An environment in which every launch succeeds and the cluster is never seen \<open>UP\<close>
  afterwards, and one in which no launch succeeds.
\<close>

definition preempting_env :: "(nat, real) env" where
  "preempting_env =
     demo_env (\<lambda>n. Launched) (\<lambda>n. Value STOPPED) (Value None) (Some demo_handle) (\<lambda>n. True)
       (Value ()) None"

definition failing_env :: "(nat, real) env" where
  "failing_env =
     (demo_env (\<lambda>n. LaunchFailed ''no capacity'') (\<lambda>n. Value UP) (Value None)
        (Some demo_handle) (\<lambda>n. True) (Value ()) None)
       \<lparr> time_sleep := (\<lambda>g w. w + 100) \<rparr>"

text \<open>The backoff object after \<open>k\<close> calls of \<open>current_backoff\<close> on \<open>b\<close>.\<close>

fun backoff_after :: "('w, 'b) env \<Rightarrow> 'b \<Rightarrow> nat \<Rightarrow> 'b" where
  "backoff_after env b 0 = b"
| "backoff_after env b (Suc k) = backoff_after env (snd (current_backoff env b)) k"


fun is_signal_handler :: "event \<Rightarrow> bool" where
  "is_signal_handler (SignalHandler r) = True"
| "is_signal_handler e = False"

text \<open>
  In a list of events: every launch comes directly after a signal check that returned, and
  a signal check that raised is the last event. The flag says whether the event before was
  a signal check that returned.
\<close>

fun launches_checked :: "bool \<Rightarrow> event list \<Rightarrow> bool" where
  "launches_checked ok [] = True"
| "launches_checked ok (SignalHandler (Value u) # es) = launches_checked True es"
| "launches_checked ok (SignalHandler (Raises e) # es) = (es = [])"
| "launches_checked ok (SkyLaunch br bz r # es) = (ok \<and> launches_checked False es)"
| "launches_checked ok (e # es) = launches_checked False es"

text \<open>
  An environment in which the user has cancelled before \<open>_launch\<close> is entered, and one in
  which no launch succeeds and the cancellation arrives during the first sleep.
\<close>

definition cancelled_env :: "(nat, real) env" where
  "cancelled_env =
     demo_env (\<lambda>n. Launched) (\<lambda>n. Value UP) (Value None) (Some demo_handle) (\<lambda>n. True)
       (Raises SpotUserCancelledError) None"

definition cancel_after_env :: "(nat, real) env" where
  "cancel_after_env =
     failing_env
       \<lparr> signal_handler :=
           (\<lambda>w. (if w < 100 then Value () else Raises SpotUserCancelledError, w)) \<rparr>"

text \<open>The intervals drawn from backoff objects, in the order of the draws.\<close>

fun backoff_gaps :: "event list \<Rightarrow> real list" where
  "backoff_gaps [] = []"
| "backoff_gaps (CurrentBackoff g # es) = g # backoff_gaps es"
| "backoff_gaps (e # es) = backoff_gaps es"

text \<open>The first \<open>n\<close> intervals that the backoff object \<open>b\<close> gives.\<close>

fun backoff_seq :: "('w, 'b) env \<Rightarrow> 'b \<Rightarrow> nat \<Rightarrow> real list" where
  "backoff_seq env b 0 = []"
| "backoff_seq env b (Suc n) =
     fst (current_backoff env b) # backoff_seq env (snd (current_backoff env b)) n"

text \<open>
  An environment in which the first five calls of \<open>sky.launch\<close> or \<open>teardown\<close> leave no
  capacity, every later launch succeeds, and the job is then found running.
\<close>

definition recovering_env :: "(nat, real) env" where
  "recovering_env =
     demo_env (\<lambda>n. if n < 6 then LaunchFailed ''no capacity'' else Launched) (\<lambda>n. Value UP)
       (Value (Some (JOB_OTHER ''RUNNING''))) (Some demo_handle) (\<lambda>n. True) (Value ()) None"

text \<open>An environment in which every launch succeeds and the job is found running.\<close>

definition running_env :: "(nat, real) env" where
  "running_env =
     demo_env (\<lambda>n. Launched) (\<lambda>n. Value UP) (Value (Some (JOB_OTHER ''RUNNING'')))
       (Some demo_handle) (\<lambda>n. True) (Value ()) None"

text \<open>The blocklists passed to the first launch in a list of events, if there is one.\<close>

fun first_launch :: "event list \<Rightarrow> (string set \<times> string set) option" where
  "first_launch [] = None"
| "first_launch (SkyLaunch br bz r # es) = Some (br, bz)"
| "first_launch (e # es) = first_launch es"

text \<open>The same with \<open>_CROSS_REGION\<close> set in the environment of the process.\<close>

definition forced_env :: "(nat, real) env" where
  "forced_env =
     running_env \<lparr> os_environ_get := (\<lambda>k. if k = ''_CROSS_REGION'' then Some ''1'' else None) \<rparr>"

section \<open>Basic facts\<close>

lemmas calls = emit_def call_signal_handler_def call_sky_launch_def call_get_cluster_from_name_def
  call_update_num_tried_locations_def call_refresh_cluster_status_handle_def call_get_job_status_def
  call_get_job_timestamp_def call_get_handle_from_cluster_name_def call_teardown_def
  call_cancel_jobs_def call_time_sleep_def backoff_and_sleep_def

lemma new_events_append: "trace s' = trace s @ es \<Longrightarrow> new_events s s' = es"
  by (simp add: new_events_def)

lemma unchanged_refl [simp]: "unchanged s s"
  by (simp add: unchanged_def)

lemma unchanged_trans: "unchanged s s' \<Longrightarrow> unchanged s' s'' \<Longrightarrow> unchanged s s''"
  by (cases s; cases s'; cases s'') (simp add: unchanged_def)

lemma unchanged_fields:
  assumes "unchanged s s'"
  shows "blocked_regions s' = blocked_regions s" "blocked_zones s' = blocked_zones s"
    "retry_until_up s' = retry_until_up s" "cluster_name s' = cluster_name s"
    "dag s' = dag s" "job_id s' = job_id s" "strategy s' = strategy s"
  using assms by (cases s; cases s'; simp add: unchanged_def)+

section \<open>The factory\<close>

text \<open>
  C8. \<open>make\<close> on a task with exactly one resource spec that names a registered recovery
  policy replaces the spec by a copy with the policy field cleared and returns a fresh
  executor: its class is the one registered under the name, its dag holds the rewritten
  task, it has the cluster name, the retry flag and the job id of the call, and both of its
  blocklists are empty. On a task with no or several specs, or whose single spec names no
  policy, it fails with \<open>AssertionError\<close>, constructs nothing and leaves the task as it
  was.
\<close>

theorem make_contract:
  "(resources t = {r} \<and> spot_recovery r = Some policy \<and> SPOT_STRATEGIES policy = Some cls \<longrightarrow>
      make name t until_up jid =
        (Inr \<lparr> strategy = cls, dag = [t\<lparr>resources := {r\<lparr>spot_recovery := None\<rparr>}\<rparr>],
               cluster_name = name, retry_until_up = until_up, job_id = jid,
               blocked_regions = {}, blocked_zones = {} \<rparr>,
         t\<lparr>resources := {r\<lparr>spot_recovery := None\<rparr>}\<rparr>))
   \<and> (card (resources t) \<noteq> 1 \<or> (resources t = {r} \<and> spot_recovery r = None) \<longrightarrow>
      make name t until_up jid = (Inl AssertionError, t))"
  by (auto simp: make_def init_def Let_def)

theorem make_contract_witness:
  "SPOT_STRATEGIES ''CROSS_REGION'' = Some CrossRegion
   \<and> make ''spot-1'' \<lparr>resources = {demo_resources\<lparr>spot_recovery := Some ''CROSS_REGION''\<rparr>}\<rparr> True 7 =
       (Inr \<lparr> strategy = CrossRegion,
              dag = [\<lparr>resources = {demo_resources\<lparr>spot_recovery := None\<rparr>}\<rparr>],
              cluster_name = ''spot-1'', retry_until_up = True, job_id = 7,
              blocked_regions = {}, blocked_zones = {} \<rparr>,
        \<lparr>resources = {demo_resources\<lparr>spot_recovery := None\<rparr>}\<rparr>)
   \<and> card {demo_resources, demo_resources\<lparr>zone := ''us-west1-b''\<rparr>} \<noteq> 1
   \<and> make ''spot-1'' \<lparr>resources = {demo_resources, demo_resources\<lparr>zone := ''us-west1-b''\<rparr>}\<rparr> False 7 =
       (Inl AssertionError,
        \<lparr>resources = {demo_resources, demo_resources\<lparr>zone := ''us-west1-b''\<rparr>}\<rparr>)
   \<and> make ''spot-1'' \<lparr>resources = {demo_resources\<lparr>spot_recovery := None\<rparr>}\<rparr> False 7 =
       (Inl AssertionError, \<lparr>resources = {demo_resources\<lparr>spot_recovery := None\<rparr>}\<rparr>)"
proof -
  let ?r = "demo_resources\<lparr>spot_recovery := Some ''CROSS_REGION''\<rparr>"
  let ?n = "demo_resources\<lparr>spot_recovery := None\<rparr>"
  let ?two = "{demo_resources, demo_resources\<lparr>zone := ''us-west1-b''\<rparr>}"
  have reg: "SPOT_STRATEGIES ''CROSS_REGION'' = Some CrossRegion"
    by (simp add: SPOT_STRATEGIES_def)
  have two: "card ?two \<noteq> 1"
    by (simp add: demo_resources_def)
  have h1: "resources \<lparr>resources = {?r}\<rparr> = {?r} \<and> spot_recovery ?r = Some ''CROSS_REGION''
      \<and> SPOT_STRATEGIES ''CROSS_REGION'' = Some CrossRegion"
    using reg by simp
  have h2: "card (resources \<lparr>resources = ?two\<rparr>) \<noteq> 1
     \<or> (resources \<lparr>resources = ?two\<rparr> = {demo_resources} \<and> spot_recovery demo_resources = None)"
    using two by simp
  have h3: "card (resources \<lparr>resources = {?n}\<rparr>) \<noteq> 1
     \<or> (resources \<lparr>resources = {?n}\<rparr> = {?n} \<and> spot_recovery ?n = None)"
    by simp
  have a: "make ''spot-1'' \<lparr>resources = {?r}\<rparr> True 7 =
       (Inr \<lparr> strategy = CrossRegion,
              dag = [\<lparr>resources = {?r}\<rparr>\<lparr>resources := {?r\<lparr>spot_recovery := None\<rparr>}\<rparr>],
              cluster_name = ''spot-1'', retry_until_up = True, job_id = 7,
              blocked_regions = {}, blocked_zones = {} \<rparr>,
        \<lparr>resources = {?r}\<rparr>\<lparr>resources := {?r\<lparr>spot_recovery := None\<rparr>}\<rparr>)"
    using make_contract [THEN conjunct1, rule_format, OF h1] .
  have b: "make ''spot-1'' \<lparr>resources = ?two\<rparr> False 7 = (Inl AssertionError, \<lparr>resources = ?two\<rparr>)"
    using make_contract [THEN conjunct2, rule_format, OF h2] .
  have c: "make ''spot-1'' \<lparr>resources = {?n}\<rparr> False 7 = (Inl AssertionError, \<lparr>resources = {?n}\<rparr>)"
    using make_contract [THEN conjunct2, rule_format, OF h3] .
  from a have a': "make ''spot-1'' \<lparr>resources = {?r}\<rparr> True 7 =
       (Inr \<lparr> strategy = CrossRegion, dag = [\<lparr>resources = {?n}\<rparr>],
              cluster_name = ''spot-1'', retry_until_up = True, job_id = 7,
              blocked_regions = {}, blocked_zones = {} \<rparr>,
        \<lparr>resources = {?n}\<rparr>)" by simp
  show ?thesis using reg two a' b c by blast
qed

section \<open>\<open>terminate_cluster\<close>\<close>

lemma terminate_loop_trace:
  "\<exists>k. unchanged s (snd (terminate_loop env h mr cnt s)) \<and>
    ((fst (terminate_loop env h mr cnt s) = Return ()
       \<and> trace (snd (terminate_loop env h mr cnt s))
           = trace s @ replicate k (Teardown h False) @ [Teardown h True]
       \<and> int k < max 1 (mr - cnt))
    \<or> (fst (terminate_loop env h mr cnt s) = Raise RuntimeError
       \<and> trace (snd (terminate_loop env h mr cnt s)) = trace s @ replicate k (Teardown h False)
       \<and> int k = max 1 (mr - cnt)))"
proof (induction env h mr cnt s rule: terminate_loop.induct)
  case (1 env h mr cnt s)
  let ?r = "call_teardown env h s"
  have u: "unchanged s (snd ?r)" by (simp add: unchanged_def calls Let_def)
  have t: "trace (snd ?r) = trace s @ [Teardown h (fst ?r)]" by (simp add: calls Let_def)
  have eq: "terminate_loop env h mr cnt s =
     (if fst ?r then (Return (), snd ?r)
      else if cnt + 1 \<ge> mr then (Raise RuntimeError, snd ?r)
      else terminate_loop env h mr (cnt + 1) (snd ?r))"
    by (subst terminate_loop.simps) (simp add: Let_def)
  show ?case
  proof (cases "fst ?r")
    case True
    then show ?thesis using u t eq by (intro exI[of _ 0]) simp
  next
    case False
    note nf = this
    show ?thesis
    proof (cases "cnt + 1 \<ge> mr")
      case True
      then show ?thesis using u t eq nf by (intro exI[of _ 1]) simp
    next
      case False
      let ?r' = "terminate_loop env h mr (cnt + 1) (snd ?r)"
      from "1.IH"[OF refl nf False] obtain k where
        k: "unchanged (snd ?r) (snd ?r')"
          "(fst ?r' = Return ()
              \<and> trace (snd ?r') = trace (snd ?r) @ replicate k (Teardown h False) @ [Teardown h True]
              \<and> int k < max 1 (mr - (cnt + 1)))
           \<or> (fst ?r' = Raise RuntimeError
              \<and> trace (snd ?r') = trace (snd ?r) @ replicate k (Teardown h False)
              \<and> int k = max 1 (mr - (cnt + 1)))" by blast
      have eq': "terminate_loop env h mr cnt s = ?r'"
        using eq nf False by simp
      show ?thesis
        unfolding eq' using k t nf False unchanged_trans[OF u k(1)]
        by (intro exI[of _ "Suc k"]) (auto simp: replicate_append_same)
    qed
  qed
qed

lemma terminate_cluster_unchanged: "unchanged s (snd (terminate_cluster env mr s))"
proof -
  let ?r = "call_get_handle_from_cluster_name env s"
  have u: "unchanged s (snd ?r)" by (simp add: unchanged_def calls Let_def)
  show ?thesis
  proof (cases "fst ?r")
    case None
    then show ?thesis using u by (simp add: terminate_cluster_def Let_def)
  next
    case (Some h)
    from terminate_loop_trace[of "snd ?r" env h mr 0]
    have "unchanged (snd ?r) (snd (terminate_loop env h mr 0 (snd ?r)))" by blast
    from unchanged_trans[OF u this] show ?thesis
      using Some by (simp add: terminate_cluster_def Let_def)
  qed
qed

lemma call_teardown_eq:
  "call_teardown env h s =
     (fst (teardown env h (world s)),
      s\<lparr>world := snd (teardown env h (world s)),
        trace := trace s @ [Teardown h (fst (teardown env h (world s)))]\<rparr>)"
  by (simp add: calls Let_def)

lemma terminate_loop_succeeds:
  "\<forall>i<k. \<not> fst (teardown env h (teardown_world env h (world s) i)) \<Longrightarrow>
   fst (teardown env h (teardown_world env h (world s) k)) \<Longrightarrow>
   int k < max 1 (mr - cnt) \<Longrightarrow>
   terminate_loop env h mr cnt s =
     (Return (),
      s\<lparr>world := teardown_world env h (world s) (Suc k),
        trace := trace s @ replicate k (Teardown h False) @ [Teardown h True]\<rparr>)"
proof (induction k arbitrary: cnt s)
  case 0
  then have ok: "fst (teardown env h (world s))" by simp
  show ?case
    by (subst terminate_loop.simps) (simp add: call_teardown_eq ok Let_def)
next
  case (Suc k)
  let ?s1 = "s\<lparr>world := snd (teardown env h (world s)),
        trace := trace s @ [Teardown h False]\<rparr>"
  from Suc.prems(1) have nok: "\<not> fst (teardown env h (world s))" by force
  from Suc.prems(3) have go: "\<not> cnt + 1 \<ge> mr" by simp
  have eq: "terminate_loop env h mr cnt s = terminate_loop env h mr (cnt + 1) ?s1"
    by (subst terminate_loop.simps) (simp add: call_teardown_eq nok go Let_def)
  have 1: "\<forall>i<k. \<not> fst (teardown env h (teardown_world env h (world ?s1) i))"
  proof (intro allI impI)
    fix i assume "i < k"
    then have "Suc i < Suc k" by simp
    with Suc.prems(1) have "\<not> fst (teardown env h (teardown_world env h (world s) (Suc i)))"
      by blast
    then show "\<not> fst (teardown env h (teardown_world env h (world ?s1) i))" by simp
  qed
  have 2: "fst (teardown env h (teardown_world env h (world ?s1) k))"
    using Suc.prems(2) by simp
  have 3: "int k < max 1 (mr - (cnt + 1))" using Suc.prems(3) by simp
  show ?case unfolding eq Suc.IH[OF 1 2 3] by (simp add: replicate_append_same)
qed

lemma terminate_loop_gives_up:
  "\<forall>i < nat (max 1 (mr - cnt)). \<not> fst (teardown env h (teardown_world env h (world s) i)) \<Longrightarrow>
   terminate_loop env h mr cnt s =
     (Raise RuntimeError,
      s\<lparr>world := teardown_world env h (world s) (nat (max 1 (mr - cnt))),
        trace := trace s @ replicate (nat (max 1 (mr - cnt))) (Teardown h False)\<rparr>)"
proof (induction n \<equiv> "nat (max 1 (mr - cnt))" arbitrary: cnt s)
  case 0
  then show ?case by simp
next
  case (Suc n)
  let ?s1 = "s\<lparr>world := snd (teardown env h (world s)),
        trace := trace s @ [Teardown h False]\<rparr>"
  from Suc.prems Suc.hyps(2) have nok: "\<not> fst (teardown env h (world s))" by force
  show ?case
  proof (cases "cnt + 1 \<ge> mr")
    case True
    then have one: "nat (max 1 (mr - cnt)) = Suc 0" by simp
    show ?thesis unfolding one
      by (subst terminate_loop.simps) (simp add: call_teardown_eq nok True Let_def)
  next
    case False
    have eq: "terminate_loop env h mr cnt s = terminate_loop env h mr (cnt + 1) ?s1"
      by (subst terminate_loop.simps) (simp add: call_teardown_eq nok False Let_def)
    from False Suc.hyps(2) have n: "n = nat (max 1 (mr - (cnt + 1)))" by simp
    from False have m: "nat (max 1 (mr - cnt)) = Suc (nat (max 1 (mr - (cnt + 1))))" by simp
    have 1: "\<forall>i < nat (max 1 (mr - (cnt + 1))).
        \<not> fst (teardown env h (teardown_world env h (world ?s1) i))"
    proof (intro allI impI)
      fix i assume "i < nat (max 1 (mr - (cnt + 1)))"
      then have "Suc i < nat (max 1 (mr - cnt))" using m by simp
      with Suc.prems have "\<not> fst (teardown env h (teardown_world env h (world s) (Suc i)))"
        by blast
      then show "\<not> fst (teardown env h (teardown_world env h (world ?s1) i))" by simp
    qed
    show ?thesis unfolding eq Suc.hyps(1)[OF n 1] m by (simp add: replicate_append_same)
  qed
qed

text \<open>
  C6. When the registry has no handle for the cluster, \<open>terminate_cluster\<close> returns at once:
  the lookup is its only call, \<open>teardown\<close> is not called. When there is a handle \<open>h\<close>, the
  backend's \<open>teardown\<close> is called on \<open>h\<close> again and again, each call in the world the one
  before left. If its call number \<open>k + 1\<close> is the first that reports success, and \<open>k\<close> is
  below the bound, \<open>terminate_cluster\<close> returns after exactly these \<open>k + 1\<close> calls. If the
  first calls up to the bound all report failure, it raises \<open>RuntimeError\<close> after exactly
  that many calls. The bound is \<open>max_retry\<close> (one call is made even when \<open>max_retry < 1\<close>).
\<close>

theorem terminate_cluster_contract:
  "(fst (get_handle_from_cluster_name env (cluster_name s) (world s)) = None \<longrightarrow>
      terminate_cluster env max_retry s =
        (Return (),
         s\<lparr>world := snd (get_handle_from_cluster_name env (cluster_name s) (world s)),
           trace := trace s @ [GetHandle None]\<rparr>))
   \<and> (fst (get_handle_from_cluster_name env (cluster_name s) (world s)) = Some h
      \<and> (\<forall>i<k. \<not> fst (teardown env h (teardown_world env h
                  (snd (get_handle_from_cluster_name env (cluster_name s) (world s))) i)))
      \<and> fst (teardown env h (teardown_world env h
                  (snd (get_handle_from_cluster_name env (cluster_name s) (world s))) k))
      \<and> int k < max 1 max_retry \<longrightarrow>
      terminate_cluster env max_retry s =
        (Return (),
         s\<lparr>world := teardown_world env h
                      (snd (get_handle_from_cluster_name env (cluster_name s) (world s))) (Suc k),
           trace := trace s @ GetHandle (Some h) # replicate k (Teardown h False)
                      @ [Teardown h True]\<rparr>))
   \<and> (fst (get_handle_from_cluster_name env (cluster_name s) (world s)) = Some h
      \<and> (\<forall>i < nat (max 1 max_retry). \<not> fst (teardown env h (teardown_world env h
                  (snd (get_handle_from_cluster_name env (cluster_name s) (world s))) i))) \<longrightarrow>
      terminate_cluster env max_retry s =
        (Raise RuntimeError,
         s\<lparr>world := teardown_world env h
                      (snd (get_handle_from_cluster_name env (cluster_name s) (world s)))
                      (nat (max 1 max_retry)),
           trace := trace s @ GetHandle (Some h)
                      # replicate (nat (max 1 max_retry)) (Teardown h False)\<rparr>))"
proof (intro conjI impI)
  assume "fst (get_handle_from_cluster_name env (cluster_name s) (world s)) = None"
  then show "terminate_cluster env max_retry s =
        (Return (),
         s\<lparr>world := snd (get_handle_from_cluster_name env (cluster_name s) (world s)),
           trace := trace s @ [GetHandle None]\<rparr>)"
    by (simp add: terminate_cluster_def calls Let_def)
next
  let ?w0 = "snd (get_handle_from_cluster_name env (cluster_name s) (world s))"
  let ?s1 = "s\<lparr>world := ?w0, trace := trace s @ [GetHandle (Some h)]\<rparr>"
  assume a: "fst (get_handle_from_cluster_name env (cluster_name s) (world s)) = Some h
      \<and> (\<forall>i<k. \<not> fst (teardown env h (teardown_world env h ?w0 i)))
      \<and> fst (teardown env h (teardown_world env h ?w0 k))
      \<and> int k < max 1 max_retry"
  then have eq: "terminate_cluster env max_retry s = terminate_loop env h max_retry 0 ?s1"
    by (simp add: terminate_cluster_def calls Let_def)
  from a have 1: "\<forall>i<k. \<not> fst (teardown env h (teardown_world env h (world ?s1) i))"
    and 2: "fst (teardown env h (teardown_world env h (world ?s1) k))"
    and 3: "int k < max 1 (max_retry - 0)" by simp_all
  show "terminate_cluster env max_retry s =
        (Return (),
         s\<lparr>world := teardown_world env h ?w0 (Suc k),
           trace := trace s @ GetHandle (Some h) # replicate k (Teardown h False)
                      @ [Teardown h True]\<rparr>)"
    unfolding eq terminate_loop_succeeds[OF 1 2 3] by simp
next
  let ?w0 = "snd (get_handle_from_cluster_name env (cluster_name s) (world s))"
  let ?s1 = "s\<lparr>world := ?w0, trace := trace s @ [GetHandle (Some h)]\<rparr>"
  assume a: "fst (get_handle_from_cluster_name env (cluster_name s) (world s)) = Some h
      \<and> (\<forall>i < nat (max 1 max_retry). \<not> fst (teardown env h (teardown_world env h ?w0 i)))"
  then have eq: "terminate_cluster env max_retry s = terminate_loop env h max_retry 0 ?s1"
    by (simp add: terminate_cluster_def calls Let_def)
  from a have 1: "\<forall>i < nat (max 1 (max_retry - 0)).
      \<not> fst (teardown env h (teardown_world env h (world ?s1) i))" by simp
  show "terminate_cluster env max_retry s =
        (Raise RuntimeError,
         s\<lparr>world := teardown_world env h ?w0 (nat (max 1 max_retry)),
           trace := trace s @ GetHandle (Some h)
                      # replicate (nat (max 1 max_retry)) (Teardown h False)\<rparr>)"
    unfolding eq terminate_loop_gives_up[OF 1] by simp
qed

theorem terminate_cluster_contract_witness:
  "fst (get_handle_from_cluster_name
          (demo_env (\<lambda>n. Launched) (\<lambda>n. Value UP) (Value None) None (\<lambda>n. False) (Value ()) None)
          (cluster_name (demo_state FailoverStrategyExecutor False))
          (world (demo_state FailoverStrategyExecutor False))) = None
   \<and> terminate_cluster
          (demo_env (\<lambda>n. Launched) (\<lambda>n. Value UP) (Value None) None (\<lambda>n. False) (Value ()) None)
          3 (demo_state FailoverStrategyExecutor False) =
       (Return (), (demo_state FailoverStrategyExecutor False)\<lparr>trace := [GetHandle None]\<rparr>)
   \<and> terminate_cluster
          (demo_env (\<lambda>n. Launched) (\<lambda>n. Value UP) (Value None) (Some demo_handle) (\<lambda>n. 1 \<le> n)
             (Value ()) None)
          3 (demo_state FailoverStrategyExecutor False) =
       (Return (),
        (demo_state FailoverStrategyExecutor False)
          \<lparr>world := 2,
           trace := [GetHandle (Some demo_handle), Teardown demo_handle False,
                     Teardown demo_handle True]\<rparr>)
   \<and> terminate_cluster
          (demo_env (\<lambda>n. Launched) (\<lambda>n. Value UP) (Value None) (Some demo_handle) (\<lambda>n. False)
             (Value ()) None)
          3 (demo_state FailoverStrategyExecutor False) =
       (Raise RuntimeError,
        (demo_state FailoverStrategyExecutor False)
          \<lparr>world := 3,
           trace := [GetHandle (Some demo_handle), Teardown demo_handle False,
                     Teardown demo_handle False, Teardown demo_handle False]\<rparr>)"
proof -
  let ?envN = "demo_env (\<lambda>n. Launched) (\<lambda>n. Value UP) (Value None) None (\<lambda>n. False) (Value ()) None"
  let ?envS = "demo_env (\<lambda>n. Launched) (\<lambda>n. Value UP) (Value None) (Some demo_handle)
             (\<lambda>n. 1 \<le> n) (Value ()) None"
  let ?envF = "demo_env (\<lambda>n. Launched) (\<lambda>n. Value UP) (Value None) (Some demo_handle)
             (\<lambda>n. False) (Value ()) None"
  let ?s = "demo_state FailoverStrategyExecutor False"
  have tw: "\<And>f k. teardown_world
      (demo_env (\<lambda>n. Launched) (\<lambda>n. Value UP) (Value None) (Some demo_handle) f (Value ()) None)
      demo_handle 0 k = k"
  proof -
    fix f k
    have "\<And>w. teardown_world
      (demo_env (\<lambda>n. Launched) (\<lambda>n. Value UP) (Value None) (Some demo_handle) f (Value ()) None)
      demo_handle w k = w + k"
      by (induction k) (simp_all add: demo_env_def)
    then show "teardown_world
      (demo_env (\<lambda>n. Launched) (\<lambda>n. Value UP) (Value None) (Some demo_handle) f (Value ()) None)
      demo_handle 0 k = k" by simp
  qed
  have w0: "world ?s = 0" "trace ?s = []" by (simp_all add: demo_state_def)
  have n: "fst (get_handle_from_cluster_name ?envN (cluster_name ?s) (world ?s)) = None"
    by (simp add: demo_env_def)
  have gS: "get_handle_from_cluster_name ?envS (cluster_name ?s) (world ?s) = (Some demo_handle, 0)"
    and gF: "get_handle_from_cluster_name ?envF (cluster_name ?s) (world ?s) = (Some demo_handle, 0)"
    and gN: "get_handle_from_cluster_name ?envN (cluster_name ?s) (world ?s) = (None, 0)"
    by (simp_all add: demo_env_def w0)
  have tS: "\<And>w. fst (teardown ?envS demo_handle w) = (1 \<le> w)"
    and tF: "\<And>w. fst (teardown ?envF demo_handle w) = False"
    by (simp_all add: demo_env_def)
  have hS: "fst (get_handle_from_cluster_name ?envS (cluster_name ?s) (world ?s)) = Some demo_handle
      \<and> (\<forall>i<1. \<not> fst (teardown ?envS demo_handle (teardown_world ?envS demo_handle
                  (snd (get_handle_from_cluster_name ?envS (cluster_name ?s) (world ?s))) i)))
      \<and> fst (teardown ?envS demo_handle (teardown_world ?envS demo_handle
                  (snd (get_handle_from_cluster_name ?envS (cluster_name ?s) (world ?s))) 1))
      \<and> int 1 < max 1 3"
    unfolding gS fst_conv snd_conv tw tS by simp
  have hF: "fst (get_handle_from_cluster_name ?envF (cluster_name ?s) (world ?s)) = Some demo_handle
      \<and> (\<forall>i < nat (max 1 3). \<not> fst (teardown ?envF demo_handle (teardown_world ?envF demo_handle
                  (snd (get_handle_from_cluster_name ?envF (cluster_name ?s) (world ?s))) i)))"
    unfolding gF fst_conv snd_conv tF by simp
  have a: "terminate_cluster ?envN 3 ?s = (Return (), ?s\<lparr>trace := [GetHandle None]\<rparr>)"
    using terminate_cluster_contract [THEN conjunct1, rule_format, OF n, of 3]
    unfolding gN snd_conv by (simp add: demo_state_def)
  have b: "terminate_cluster ?envS 3 ?s =
       (Return (),
        ?s\<lparr>world := 2,
           trace := [GetHandle (Some demo_handle), Teardown demo_handle False,
                     Teardown demo_handle True]\<rparr>)"
    using terminate_cluster_contract [THEN conjunct2, THEN conjunct1, rule_format, OF hS]
    unfolding gS snd_conv tw by (simp add: demo_state_def)
  have c: "terminate_cluster ?envF 3 ?s =
       (Raise RuntimeError,
        ?s\<lparr>world := 3,
           trace := [GetHandle (Some demo_handle), Teardown demo_handle False,
                     Teardown demo_handle False, Teardown demo_handle False]\<rparr>)"
    using terminate_cluster_contract [THEN conjunct2, THEN conjunct2, rule_format, OF hF]
    unfolding gF snd_conv tw by (simp add: demo_state_def numeral_3_eq_3)
  show ?thesis using n a b c by blast
qed

declare poll_loop.simps [simp del] terminate_loop.simps [simp del] launch_loop.simps(2) [simp del]

lemma grows_refl [simp]: "grows s s"
  by (simp add: grows_def new_events_def)

lemma run_facts:
  assumes "trace s' = trace s @ es"
  shows "grows s s'" "new_events s s' = es"
  using assms by (simp_all add: grows_def new_events_def)

lemma grows_trans:
  assumes "grows s s'" "grows s' s''"
  shows "grows s s''" "new_events s s'' = new_events s s' @ new_events s' s''"
proof -
  from assms have "trace s'' = trace s @ (new_events s s' @ new_events s' s'')"
    by (simp add: grows_def)
  then show "grows s s''" "new_events s s'' = new_events s s' @ new_events s' s''"
    by (rule run_facts)+
qed

lemma poll_loop_unfold:
  "poll_loop env status cnt s =
     (if (status = None \<or> status \<in> {Some JOB_INIT, Some JOB_PENDING})
         \<and> cnt < MAX_JOB_CHECKING_RETRY env
      then (case poll_iteration env s of
              (PollDone x, s') \<Rightarrow> (x, s')
            | (PollAgain, s') \<Rightarrow> poll_loop env None (cnt + 1) s')
      else (PollExit, s))"
  by (subst poll_loop.simps)
     (simp add: poll_iteration_def Let_def split: reply.splits option.splits)

lemma poll_iteration_run:
  "unchanged s (snd (poll_iteration env s)) \<and> grows s (snd (poll_iteration env s))
   \<and> list_all is_poll_event (new_events s (snd (poll_iteration env s)))
   \<and> (fst (poll_iteration env s) = PollAgain \<longrightarrow>
        new_events s (snd (poll_iteration env s)) = poll_round env)
   \<and> (\<forall>t. fst (poll_iteration env s) = PollDone (PollReturn t) \<longrightarrow>
        (\<exists>st. new_events s (snd (poll_iteration env s)) =
           [RefreshClusterStatus (Value UP), Sleep (JOB_STARTED_STATUS_CHECK_GAP_SECONDS env),
            GetJobStatus (Value (Some st)), GetJobTimestamp (Value t)]))
   \<and> fst (poll_iteration env s) \<noteq> PollDone PollExit"
  by (simp add: poll_iteration_def calls Let_def unchanged_def grows_def new_events_def
      poll_round_def split: reply.splits option.splits)

lemma new_events_self [simp]: "new_events s s = []"
  by (simp add: new_events_def)

lemma poll_loop_run:
  "unchanged s (snd (poll_loop env status cnt s)) \<and> grows s (snd (poll_loop env status cnt s))
   \<and> list_all is_poll_event (new_events s (snd (poll_loop env status cnt s)))
   \<and> (\<forall>t. fst (poll_loop env status cnt s) = PollReturn t \<longrightarrow>
        (\<exists>pre st. new_events s (snd (poll_loop env status cnt s)) =
           pre @ [RefreshClusterStatus (Value UP), Sleep (JOB_STARTED_STATUS_CHECK_GAP_SECONDS env),
                  GetJobStatus (Value (Some st)), GetJobTimestamp (Value t)]))
   \<and> (status = None \<longrightarrow> fst (poll_loop env status cnt s) = PollExit \<longrightarrow>
        new_events s (snd (poll_loop env status cnt s)) =
          concat (replicate (nat (MAX_JOB_CHECKING_RETRY env - cnt)) (poll_round env)))"
  (is "?P status cnt s")
proof (induction n \<equiv> "nat (MAX_JOB_CHECKING_RETRY env - cnt)" arbitrary: cnt s status)
  case 0
  then have "\<not> cnt < MAX_JOB_CHECKING_RETRY env" by simp
  then have eq: "poll_loop env status cnt s = (PollExit, s)"
    by (subst poll_loop_unfold) simp
  show ?case unfolding eq using 0 by simp
next
  case (Suc n)
  let ?it = "poll_iteration env s"
  note it = poll_iteration_run[of s env]
  show ?case
  proof (cases "(status = None \<or> status \<in> {Some JOB_INIT, Some JOB_PENDING})
         \<and> cnt < MAX_JOB_CHECKING_RETRY env")
    case False
    have eq: "poll_loop env status cnt s = (PollExit, s)"
      by (subst poll_loop_unfold) (rule if_not_P[OF False])
    from False have "status = None \<longrightarrow> nat (MAX_JOB_CHECKING_RETRY env - cnt) = 0" by auto
    then show ?thesis unfolding eq by simp
  next
    case True
    note c = this
    show ?thesis
    proof (cases "fst ?it")
      case (PollDone x)
      then have eq: "poll_loop env status cnt s = (x, snd ?it)"
        by (subst poll_loop_unfold, subst if_P[OF c]) (simp add: split_beta)
      from it PollDone have "x \<noteq> PollExit" by simp
      then show ?thesis unfolding eq using it PollDone by auto
    next
      case PollAgain
      let ?r' = "poll_loop env None (cnt + 1) (snd ?it)"
      have eq: "poll_loop env status cnt s = ?r'"
        using PollAgain by (subst poll_loop_unfold, subst if_P[OF c]) (simp add: split_beta)
      from Suc.hyps(2) c have n: "n = nat (MAX_JOB_CHECKING_RETRY env - (cnt + 1))" by simp
      note ih = Suc.hyps(1)[OF n, of "snd ?it" None]
      from it PollAgain have u: "unchanged s (snd ?it)" and g: "grows s (snd ?it)"
        and e: "new_events s (snd ?it) = poll_round env" by simp_all
      from ih have u': "unchanged (snd ?it) (snd ?r')" and g': "grows (snd ?it) (snd ?r')" by simp_all
      note gt = grows_trans[OF g g']
      have ev: "new_events s (snd ?r') = poll_round env @ new_events (snd ?it) (snd ?r')"
        using gt(2) e by simp
      have k: "nat (MAX_JOB_CHECKING_RETRY env - cnt) = Suc n" using Suc.hyps(2) by simp
      have 1: "unchanged s (snd ?r')" by (rule unchanged_trans[OF u u'])
      have 2: "grows s (snd ?r')" by (rule gt(1))
      have 3: "list_all is_poll_event (new_events s (snd ?r'))"
        using ih by (simp add: ev poll_round_def)
      have 4: "\<forall>t. fst ?r' = PollReturn t \<longrightarrow>
        (\<exists>pre st. new_events s (snd ?r') =
           pre @ [RefreshClusterStatus (Value UP), Sleep (JOB_STARTED_STATUS_CHECK_GAP_SECONDS env),
                  GetJobStatus (Value (Some st)), GetJobTimestamp (Value t)])"
      proof (intro allI impI)
        fix t assume "fst ?r' = PollReturn t"
        with ih obtain pre st where "new_events (snd ?it) (snd ?r') =
           pre @ [RefreshClusterStatus (Value UP), Sleep (JOB_STARTED_STATUS_CHECK_GAP_SECONDS env),
                  GetJobStatus (Value (Some st)), GetJobTimestamp (Value t)]" by blast
        then have "new_events s (snd ?r') = (poll_round env @ pre) @
             [RefreshClusterStatus (Value UP), Sleep (JOB_STARTED_STATUS_CHECK_GAP_SECONDS env),
                  GetJobStatus (Value (Some st)), GetJobTimestamp (Value t)]"
          using ev by simp
        then show "\<exists>pre st. new_events s (snd ?r') =
           pre @ [RefreshClusterStatus (Value UP), Sleep (JOB_STARTED_STATUS_CHECK_GAP_SECONDS env),
                  GetJobStatus (Value (Some st)), GetJobTimestamp (Value t)]" by blast
      qed
      have 5: "fst ?r' = PollExit \<longrightarrow> new_events s (snd ?r') =
          concat (replicate (nat (MAX_JOB_CHECKING_RETRY env - cnt)) (poll_round env))"
        using ih ev k n by simp
      show ?thesis unfolding eq using 1 2 3 4 5 by blast
    qed
  qed
qed


lemma steps_refl [simp]: "steps s [] s"
  by (simp add: steps_def)

lemma steps_trans: "steps s es s' \<Longrightarrow> steps s' es' s'' \<Longrightarrow> steps s (es @ es') s''"
  using unchanged_trans[of s s' s''] by (simp add: steps_def)

lemma steps_facts:
  assumes "steps s es s'"
  shows "unchanged s s'" "grows s s'" "new_events s s' = es"
  using assms by (simp_all add: steps_def grows_def new_events_def)

lemma steps_calls:
  "steps s [SignalHandler (fst (call_signal_handler env s))] (snd (call_signal_handler env s))"
  "steps s [SkyLaunch (blocked_regions s) (blocked_zones s) (fst (call_sky_launch env s))]
     (snd (call_sky_launch env s))"
  "steps s [GetHandle (fst (call_get_handle_from_cluster_name env s))]
     (snd (call_get_handle_from_cluster_name env s))"
  "steps s [CancelJobs h (fst (call_cancel_jobs env h s))] (snd (call_cancel_jobs env h s))"
  "steps s [Sleep gap] (call_time_sleep env gap s)"
  "steps s [CurrentBackoff (fst (current_backoff env bk)), Sleep (fst (current_backoff env bk))]
     (snd (backoff_and_sleep env bk s))"
  by (simp_all add: steps_def unchanged_def calls Let_def)

lemma backoff_and_sleep_fst: "fst (backoff_and_sleep env bk s) = snd (current_backoff env bk)"
  by (simp add: backoff_and_sleep_def Let_def)

lemma record_tried_locations_steps:
  "\<exists>rec. steps s rec (record_tried_locations env s) \<and> list_all is_record_event rec"
  by (simp add: record_tried_locations_def steps_def unchanged_def calls Let_def
      split: option.splits)

lemma poll_loop_steps:
  "steps s (new_events s (snd (poll_loop env status cnt s))) (snd (poll_loop env status cnt s))"
  using poll_loop_run[of s env status cnt] by (simp add: steps_def grows_def)


lemma launch_loop_Suc:
  "launch_loop env (Suc fuel) mr rof cnt bk s =
     (case launch_iteration env mr rof cnt bk s of
        (Done r, s') \<Rightarrow> (r, s')
      | (Again bk', s') \<Rightarrow> launch_loop env fuel mr rof (cnt + 1) bk' s')"
  by (simp add: launch_loop.simps(2) launch_iteration_def Let_def
      split: reply.splits launch_reply.splits poll_exit.splits)

lemma clear_if_exhausted_facts:
  "trace (clear_if_exhausted msg s) = trace s"
  "unchanged s s' \<Longrightarrow> unchanged (clear_if_exhausted msg s) (clear_if_exhausted msg s')"
  by (cases s; cases s'; simp add: clear_if_exhausted_def unchanged_def)+

lemma launch_iteration_signal:
  assumes "fst (call_signal_handler env s) = Raises e"
  shows "fst (launch_iteration env mr rof cnt bk s) = Done (Raise e)"
    "steps s [SignalHandler (Raises e)] (snd (launch_iteration env mr rof cnt bk s))"
  using assms steps_calls(1)[of s env] by (simp_all add: launch_iteration_def Let_def)

lemma launch_iteration_failed:
  assumes sg: "fst (call_signal_handler env s) = Value u"
    and lf: "fst (call_sky_launch env (snd (call_signal_handler env s))) = LaunchFailed msg"
  shows "fst (launch_iteration env mr rof cnt bk s) =
           (if mr \<noteq> None \<and> cnt + 1 \<ge> the mr
            then Done (if rof then Raise ResourcesUnavailableError else Return None)
            else Again (snd (current_backoff env bk)))"
    "unchanged (clear_if_exhausted msg s) (snd (launch_iteration env mr rof cnt bk s))"
    "trace (snd (launch_iteration env mr rof cnt bk s)) =
       trace s @ [SignalHandler (Value ()),
                  SkyLaunch (blocked_regions s) (blocked_zones s) (LaunchFailed msg)]
         @ (if mr \<noteq> None \<and> cnt + 1 \<ge> the mr then []
            else [CurrentBackoff (fst (current_backoff env bk)),
                  Sleep (fst (current_backoff env bk))])"
proof -
  let ?s1 = "snd (call_signal_handler env s)"
  let ?s2 = "snd (call_sky_launch env ?s1)"
  let ?s3 = "clear_if_exhausted msg ?s2"
  let ?s4 = "snd (backoff_and_sleep env bk ?s3)"
  let ?g = "fst (current_backoff env bk)"
  let ?stop = "mr \<noteq> None \<and> cnt + 1 \<ge> the mr"
  have 1: "steps s [SignalHandler (Value ())] ?s1"
    using steps_calls(1)[of s env] sg by simp
  from steps_facts(1)[OF 1] have b: "blocked_regions ?s1 = blocked_regions s"
      "blocked_zones ?s1 = blocked_zones s"
    by (simp_all add: unchanged_fields)
  have 2: "steps ?s1 [SkyLaunch (blocked_regions s) (blocked_zones s) (LaunchFailed msg)] ?s2"
    using steps_calls(2)[of ?s1 env] lf b by simp
  note 12 = steps_trans[OF 1 2]
  have u3: "unchanged (clear_if_exhausted msg s) ?s3"
    by (rule clear_if_exhausted_facts(2)[OF steps_facts(1)[OF 12]])
  have t3: "trace ?s3 = trace s @ [SignalHandler (Value ()),
                  SkyLaunch (blocked_regions s) (blocked_zones s) (LaunchFailed msg)]"
    using 12 by (simp add: clear_if_exhausted_facts(1) steps_def)
  have 4: "steps ?s3 [CurrentBackoff ?g, Sleep ?g] ?s4"
    by (rule steps_calls(6))
  have u4: "unchanged (clear_if_exhausted msg s) ?s4"
    by (rule unchanged_trans[OF u3 steps_facts(1)[OF 4]])
  have t4: "trace ?s4 = trace s @ [SignalHandler (Value ()),
                  SkyLaunch (blocked_regions s) (blocked_zones s) (LaunchFailed msg)]
               @ [CurrentBackoff ?g, Sleep ?g]"
    using 4 t3 by (simp add: steps_def)
  have eq: "launch_iteration env mr rof cnt bk s =
      (if ?stop then (Done (if rof then Raise ResourcesUnavailableError else Return None), ?s3)
       else (Again (snd (current_backoff env bk)), ?s4))"
    using sg lf by (simp add: launch_iteration_def Let_def backoff_and_sleep_fst)
  show "fst (launch_iteration env mr rof cnt bk s) =
           (if ?stop then Done (if rof then Raise ResourcesUnavailableError else Return None)
            else Again (snd (current_backoff env bk)))"
    unfolding eq by simp
  show "unchanged (clear_if_exhausted msg s) (snd (launch_iteration env mr rof cnt bk s))"
    unfolding eq using u3 u4 by simp
  show "trace (snd (launch_iteration env mr rof cnt bk s)) =
       trace s @ [SignalHandler (Value ()),
                  SkyLaunch (blocked_regions s) (blocked_zones s) (LaunchFailed msg)]
         @ (if ?stop then [] else [CurrentBackoff ?g, Sleep ?g])"
    unfolding eq using t3 t4 by simp
qed

lemma launch_iteration_launched:
  assumes sg: "fst (call_signal_handler env s) = Value u"
    and la: "fst (call_sky_launch env (snd (call_signal_handler env s))) = Launched"
  shows "\<exists>rec pe. list_all is_record_event rec \<and> list_all is_poll_event pe
     \<and> ((\<exists>t st. fst (launch_iteration env mr rof cnt bk s) = Done (Return (Some t))
            \<and> steps s ([SignalHandler (Value ()),
                        SkyLaunch (blocked_regions s) (blocked_zones s) Launched] @ rec @ pe
                       @ [RefreshClusterStatus (Value UP),
                          Sleep (JOB_STARTED_STATUS_CHECK_GAP_SECONDS env),
                          GetJobStatus (Value (Some st)), GetJobTimestamp (Value t)])
                 (snd (launch_iteration env mr rof cnt bk s)))
       \<or> (fst (launch_iteration env mr rof cnt bk s) = Again (snd (current_backoff env bk))
            \<and> steps s ([SignalHandler (Value ()),
                        SkyLaunch (blocked_regions s) (blocked_zones s) Launched] @ rec @ pe
                       @ [CurrentBackoff (fst (current_backoff env bk)),
                          Sleep (fst (current_backoff env bk))])
                 (snd (launch_iteration env mr rof cnt bk s)))
       \<or> (fst (launch_iteration env mr rof cnt bk s) = Done (Return None)
            \<and> pe = concat (replicate (nat (MAX_JOB_CHECKING_RETRY env)) (poll_round env))
            \<and> steps s ([SignalHandler (Value ()),
                        SkyLaunch (blocked_regions s) (blocked_zones s) Launched] @ rec @ pe)
                 (snd (launch_iteration env mr rof cnt bk s))))"
proof -
  let ?s1 = "snd (call_signal_handler env s)"
  let ?s2 = "snd (call_sky_launch env ?s1)"
  let ?s3 = "record_tried_locations env ?s2"
  let ?r3 = "poll_loop env None 0 ?s3"
  let ?s4 = "snd (backoff_and_sleep env bk (snd ?r3))"
  let ?g = "fst (current_backoff env bk)"
  let ?hd = "[SignalHandler (Value ()), SkyLaunch (blocked_regions s) (blocked_zones s) Launched]"
  let ?pe = "new_events ?s3 (snd ?r3)"
  have 1: "steps s [SignalHandler (Value ())] ?s1"
    using steps_calls(1)[of s env] sg by simp
  from steps_facts(1)[OF 1] have b: "blocked_regions ?s1 = blocked_regions s"
      "blocked_zones ?s1 = blocked_zones s"
    by (simp_all add: unchanged_fields)
  have 2: "steps ?s1 [SkyLaunch (blocked_regions s) (blocked_zones s) Launched] ?s2"
    using steps_calls(2)[of ?s1 env] la b by simp
  from steps_trans[OF 1 2] have 12: "steps s ?hd ?s2" by simp
  from record_tried_locations_steps[of ?s2 env] obtain rec where
    3: "steps ?s2 rec ?s3" and rec: "list_all is_record_event rec" by blast
  from steps_trans[OF 12 3] have 123: "steps s (?hd @ rec) ?s3" .
  have p: "steps ?s3 ?pe (snd ?r3)" by (rule poll_loop_steps)
  from steps_trans[OF 123 p] have 1234: "steps s (?hd @ rec @ ?pe) (snd ?r3)" by simp
  note pr = poll_loop_run[of ?s3 env None 0]
  from pr have pq: "list_all is_poll_event ?pe" by blast
  show ?thesis
  proof (cases "fst ?r3")
    case (PollReturn t)
    then have eq: "launch_iteration env mr rof cnt bk s = (Done (Return (Some t)), snd ?r3)"
      using sg la by (simp add: launch_iteration_def Let_def)
    from pr PollReturn obtain pre st where
      pe: "?pe = pre @ [RefreshClusterStatus (Value UP),
                        Sleep (JOB_STARTED_STATUS_CHECK_GAP_SECONDS env),
                        GetJobStatus (Value (Some st)), GetJobTimestamp (Value t)]" by blast
    from pq pe have pre: "list_all is_poll_event pre" by simp
    from 1234 pe have "steps s (?hd @ rec @ pre
                       @ [RefreshClusterStatus (Value UP),
                          Sleep (JOB_STARTED_STATUS_CHECK_GAP_SECONDS env),
                          GetJobStatus (Value (Some st)), GetJobTimestamp (Value t)])
                 (snd ?r3)" by simp
    then show ?thesis unfolding eq using rec pre by (intro exI[of _ rec] exI[of _ pre]) auto
  next
    case PollBreak
    then have eq: "launch_iteration env mr rof cnt bk s =
        (Again (snd (current_backoff env bk)), ?s4)"
      using sg la by (simp add: launch_iteration_def Let_def backoff_and_sleep_fst)
    have 5: "steps (snd ?r3) [CurrentBackoff ?g, Sleep ?g] ?s4" by (rule steps_calls(6))
    from steps_trans[OF 1234 5] have "steps s (?hd @ rec @ ?pe @ [CurrentBackoff ?g, Sleep ?g]) ?s4"
      by simp
    then show ?thesis unfolding eq using rec pq by (intro exI[of _ rec] exI[of _ ?pe]) auto
  next
    case PollExit
    then have eq: "launch_iteration env mr rof cnt bk s = (Done (Return None), snd ?r3)"
      using sg la by (simp add: launch_iteration_def Let_def)
    from pr PollExit have
      pe: "?pe = concat (replicate (nat (MAX_JOB_CHECKING_RETRY env)) (poll_round env))" by simp
    show ?thesis unfolding eq using rec pq pe 1234 by (intro exI[of _ rec] exI[of _ ?pe]) auto
  qed
qed

section \<open>\<open>recover\<close> without a handle\<close>

text \<open>
  C10. When the registry has no handle for the cluster, \<open>recover\<close> of either strategy
  looks the handle up, passes \<open>None\<close> to \<open>cancel_jobs\<close>, and then fails: with the
  exception of \<open>cancel_jobs\<close> when that is not a \<open>CommandError\<close>, and otherwise with the
  \<open>AttributeError\<close> of reading \<open>launched_resources\<close> on \<open>None\<close>. No blocklist is
  updated, no cluster is torn down and no launch is attempted; the outcome is never a
  normal return and never \<open>ResourcesUnavailableError\<close> of the executor's own.
\<close>

theorem recover_needs_handle:
  assumes "fst (get_handle_from_cluster_name env (cluster_name s) (world s)) = None"
  shows "(let c = fst (cancel_jobs env None
                         (snd (get_handle_from_cluster_name env (cluster_name s) (world s))));
              e = (case uncaught_by_cancel c of None \<Rightarrow> AttributeError | Some e' \<Rightarrow> e')
          in fst (failover_recover env fuel s) = Raise e
             \<and> new_events s (snd (failover_recover env fuel s)) = [GetHandle None, CancelJobs None c]
             \<and> unchanged s (snd (failover_recover env fuel s))
             \<and> fst (cross_region_recover env fuel s) = Raise e
             \<and> new_events s (snd (cross_region_recover env fuel s))
                 = [GetHandle None, CancelJobs None c]
             \<and> unchanged s (snd (cross_region_recover env fuel s)))"
  using assms
  by (simp add: failover_recover_def cross_region_recover_def calls Let_def new_events_def
      unchanged_def split: option.splits)

theorem recover_needs_handle_witness:
  "fst (get_handle_from_cluster_name
          (demo_env (\<lambda>n. Launched) (\<lambda>n. Value UP) (Value None) None (\<lambda>n. True) (Value ()) None)
          (cluster_name (demo_state CrossRegion False))
          (world (demo_state CrossRegion False))) = None
   \<and> fst (failover_recover
          (demo_env (\<lambda>n. Launched) (\<lambda>n. Value UP) (Value None) None (\<lambda>n. True) (Value ()) None)
          5 (demo_state CrossRegion False)) = Raise AttributeError
   \<and> fst (cross_region_recover
          (demo_env (\<lambda>n. Launched) (\<lambda>n. Value UP) (Value None) None (\<lambda>n. True) (Value ()) None)
          5 (demo_state CrossRegion False)) = Raise AttributeError"
proof -
  let ?env = "demo_env (\<lambda>n. Launched) (\<lambda>n. Value UP) (Value None) None (\<lambda>n. True) (Value ()) None"
  let ?s = "demo_state CrossRegion False"
  have n: "fst (get_handle_from_cluster_name ?env (cluster_name ?s) (world ?s)) = None"
    by (simp add: demo_env_def)
  have c: "uncaught_by_cancel (fst (cancel_jobs ?env None
             (snd (get_handle_from_cluster_name ?env (cluster_name ?s) (world ?s))))) = None"
    by (simp add: demo_env_def uncaught_by_cancel_def)
  from recover_needs_handle [OF n, of 5] c
  have "fst (failover_recover ?env 5 ?s) = Raise AttributeError
      \<and> fst (cross_region_recover ?env 5 ?s) = Raise AttributeError"
    by (simp add: Let_def)
  with n show ?thesis by blast
qed


section \<open>The outer loop of \<open>_launch\<close>\<close>

lemma launch_loop_Done:
  "fst (launch_iteration env mr rof cnt bk s) = Done r \<Longrightarrow>
     launch_loop env (Suc fuel) mr rof cnt bk s = (r, snd (launch_iteration env mr rof cnt bk s))"
  by (cases "launch_iteration env mr rof cnt bk s") (simp add: launch_loop_Suc)

lemma launch_loop_Again:
  "fst (launch_iteration env mr rof cnt bk s) = Again bk' \<Longrightarrow>
     launch_loop env (Suc fuel) mr rof cnt bk s =
       launch_loop env fuel mr rof (cnt + 1) bk' (snd (launch_iteration env mr rof cnt bk s))"
  by (cases "launch_iteration env mr rof cnt bk s") (simp add: launch_loop_Suc)

lemma launch_iteration_failed_eq:
  assumes "fst (signal_handler env (world s)) = Value ()"
    and "fst (sky_launch env (dag s) (cluster_name s) (blocked_regions s) (blocked_zones s)
               (snd (signal_handler env (world s)))) = LaunchFailed msg"
  shows "launch_iteration env mr rof cnt bk s =
     (if mr \<noteq> None \<and> cnt + 1 \<ge> the mr
      then (Done (if rof then Raise ResourcesUnavailableError else Return None),
            (clear_if_exhausted msg s)
              \<lparr>world := snd (sky_launch env (dag s) (cluster_name s) (blocked_regions s)
                              (blocked_zones s) (snd (signal_handler env (world s)))),
               trace := trace s @ [SignalHandler (Value ()),
                          SkyLaunch (blocked_regions s) (blocked_zones s) (LaunchFailed msg)]\<rparr>)
      else (Again (snd (current_backoff env bk)),
            (clear_if_exhausted msg s)
              \<lparr>world := time_sleep env (fst (current_backoff env bk))
                          (snd (sky_launch env (dag s) (cluster_name s) (blocked_regions s)
                                 (blocked_zones s) (snd (signal_handler env (world s))))),
               trace := trace s @ [SignalHandler (Value ()),
                          SkyLaunch (blocked_regions s) (blocked_zones s) (LaunchFailed msg),
                          CurrentBackoff (fst (current_backoff env bk)),
                          Sleep (fst (current_backoff env bk))]\<rparr>))"
  using assms by (simp add: launch_iteration_def calls Let_def clear_if_exhausted_def)

lemma not_launch_events:
  "list_all is_record_event xs \<Longrightarrow> filter is_sky_launch xs = []"
  "list_all is_poll_event xs \<Longrightarrow> filter is_sky_launch xs = []"
proof -
  have r: "\<And>e. is_record_event e \<Longrightarrow> \<not> is_sky_launch e" by (case_tac e) simp_all
  have p: "\<And>e. is_poll_event e \<Longrightarrow> \<not> is_sky_launch e" by (case_tac e) simp_all
  show "list_all is_record_event xs \<Longrightarrow> filter is_sky_launch xs = []"
    using r by (induction xs) auto
  show "list_all is_poll_event xs \<Longrightarrow> filter is_sky_launch xs = []"
    using p by (induction xs) auto
qed

text \<open>An iteration that goes round again drew one interval and made one launch.\<close>

lemma launch_iteration_Again:
  assumes "fst (launch_iteration env mr rof cnt bk s) = Again bk'"
  shows "bk' = snd (current_backoff env bk)"
    and "length (filter is_sky_launch (new_events s (snd (launch_iteration env mr rof cnt bk s)))) = 1"
proof -
  let ?it = "launch_iteration env mr rof cnt bk s"
  have "bk' = snd (current_backoff env bk)
      \<and> length (filter is_sky_launch (new_events s (snd ?it))) = 1"
  proof (cases "fst (call_signal_handler env s)")
    case (Raises e)
    from launch_iteration_signal(1)[OF Raises, of mr rof cnt bk] assms show ?thesis by simp
  next
    case (Value u)
    show ?thesis
    proof (cases "fst (call_sky_launch env (snd (call_signal_handler env s)))")
      case (LaunchFailed msg)
      note f = launch_iteration_failed[OF Value LaunchFailed, of mr rof cnt bk]
      from f(1) assms have go: "\<not> (mr \<noteq> None \<and> cnt + 1 \<ge> the mr)"
        and b: "bk' = snd (current_backoff env bk)" by (simp_all split: if_splits)
      from f(3) go have "trace (snd ?it) = trace s @ [SignalHandler (Value ()),
                  SkyLaunch (blocked_regions s) (blocked_zones s) (LaunchFailed msg),
                  CurrentBackoff (fst (current_backoff env bk)),
                  Sleep (fst (current_backoff env bk))]" by simp
      from run_facts(2)[OF this] b show ?thesis by simp
    next
      case Launched
      from launch_iteration_launched[OF Value Launched, of mr rof cnt bk] assms
      obtain rec pe where rec: "list_all is_record_event rec" and pe: "list_all is_poll_event pe"
        and b: "bk' = snd (current_backoff env bk)"
        and st: "steps s ([SignalHandler (Value ()),
                        SkyLaunch (blocked_regions s) (blocked_zones s) Launched] @ rec @ pe
                       @ [CurrentBackoff (fst (current_backoff env bk)),
                          Sleep (fst (current_backoff env bk))]) (snd ?it)"
        by auto
      from steps_facts(3)[OF st] not_launch_events(1)[OF rec] not_launch_events(2)[OF pe] b
      show ?thesis by simp
    qed
  qed
  then show "bk' = snd (current_backoff env bk)"
    and "length (filter is_sky_launch (new_events s (snd ?it))) = 1" by simp_all
qed

lemma launch_iteration_Done: "fst (launch_iteration env mr rof cnt bk s) \<noteq> Done OutOfFuel"
proof (cases "fst (call_signal_handler env s)")
  case (Raises e)
  from launch_iteration_signal(1)[OF Raises, of mr rof cnt bk] show ?thesis by simp
next
  case (Value u)
  show ?thesis
  proof (cases "fst (call_sky_launch env (snd (call_signal_handler env s)))")
    case (LaunchFailed msg)
    from launch_iteration_failed(1)[OF Value LaunchFailed, of mr rof cnt bk]
    show ?thesis by (simp split: if_splits)
  next
    case Launched
    from launch_iteration_launched[OF Value Launched, of mr rof cnt bk]
    show ?thesis by auto
  qed
qed

lemma launch_iteration_grows: "grows s (snd (launch_iteration env mr rof cnt bk s))"
proof (cases "fst (call_signal_handler env s)")
  case (Raises e)
  from steps_facts(2)[OF launch_iteration_signal(2)[OF Raises]] show ?thesis .
next
  case (Value u)
  show ?thesis
  proof (cases "fst (call_sky_launch env (snd (call_signal_handler env s)))")
    case (LaunchFailed msg)
    from run_facts(1)[OF launch_iteration_failed(3)[OF Value LaunchFailed]] show ?thesis .
  next
    case Launched
    from launch_iteration_launched[OF Value Launched, of mr rof cnt bk]
    show ?thesis using steps_facts(2) by blast
  qed
qed

lemma launch_loop_grows: "grows s (snd (launch_loop env fuel mr rof cnt bk s))"
proof (induction fuel arbitrary: cnt bk s)
  case 0
  show ?case by simp
next
  case (Suc fuel)
  let ?it = "launch_iteration env mr rof cnt bk s"
  show ?case
  proof (cases "fst ?it")
    case (Done r)
    show ?thesis unfolding launch_loop_Done[OF Done] using launch_iteration_grows by simp
  next
    case (Again bk')
    show ?thesis unfolding launch_loop_Again[OF Again]
      by (rule grows_trans(1)[OF launch_iteration_grows Suc.IH])
  qed
qed

text \<open>
  A run that is out of fuel after \<open>k\<close> iterations has made \<open>k\<close> launches and drawn \<open>k\<close>
  intervals, and with more fuel it goes on from where it stopped.
\<close>

lemma launch_loop_prefix:
  assumes "launch_loop env k mr rof cnt bk s = (OutOfFuel, sk)"
  shows "launch_loop env (k + n) mr rof cnt bk s =
           launch_loop env n mr rof (cnt + int k) (backoff_after env bk k) sk"
    and "grows s sk"
    and "length (filter is_sky_launch (new_events s sk)) = k"
proof -
  have "launch_loop env k mr rof cnt bk s = (OutOfFuel, sk) \<Longrightarrow>
      launch_loop env (k + n) mr rof cnt bk s =
           launch_loop env n mr rof (cnt + int k) (backoff_after env bk k) sk
      \<and> grows s sk \<and> length (filter is_sky_launch (new_events s sk)) = k"
  proof (induction k arbitrary: cnt bk s)
    case 0
    then show ?case by simp
  next
    case (Suc k)
    let ?it = "launch_iteration env mr rof cnt bk s"
    show ?case
    proof (cases "fst ?it")
      case (Done r)
      from Suc.prems launch_loop_Done[OF Done, of k] launch_iteration_Done[of env mr rof cnt bk s]
        Done show ?thesis by simp
    next
      case (Again bk')
      note b = launch_iteration_Again[OF Again]
      from Suc.prems launch_loop_Again[OF Again, of k]
      have "launch_loop env k mr rof (cnt + 1) bk' (snd ?it) = (OutOfFuel, sk)" by simp
      note ih = Suc.IH[OF this]
      from ih have g: "grows (snd ?it) sk" by blast
      note gt = grows_trans[OF launch_iteration_grows g]
      have 1: "launch_loop env (Suc k + n) mr rof cnt bk s =
           launch_loop env n mr rof (cnt + int (Suc k)) (backoff_after env bk (Suc k)) sk"
        using ih launch_loop_Again[OF Again, of "k + n"] b(1) by (simp add: add.assoc)
      have 3: "length (filter is_sky_launch (new_events s sk)) = Suc k"
        using ih b(2) gt(2) by simp
      from 1 gt(1) 3 show ?thesis by blast
    qed
  qed
  with assms show "launch_loop env (k + n) mr rof cnt bk s =
           launch_loop env n mr rof (cnt + int k) (backoff_after env bk k) sk"
    and "grows s sk"
    and "length (filter is_sky_launch (new_events s sk)) = k" by simp_all
qed

lemma launch_loop_all_fail:
  assumes sg: "\<forall>w. fst (signal_handler env w) = Value ()"
    and lf: "\<forall>d n br bz w. \<exists>m. fst (sky_launch env d n br bz w) = LaunchFailed m"
  shows "fst (launch_loop env fuel None rof cnt bk s) = OutOfFuel"
proof (induction fuel arbitrary: cnt bk s)
  case 0
  show ?case by simp
next
  case (Suc fuel)
  from sg have 1: "fst (call_signal_handler env s) = Value ()" by (simp add: calls Let_def)
  from lf obtain m where
    2: "fst (call_sky_launch env (snd (call_signal_handler env s))) = LaunchFailed m"
    unfolding call_sky_launch_def Let_def fst_conv by blast
  from launch_iteration_failed(1)[OF 1 2, of None rof cnt bk]
  have "fst (launch_iteration env None rof cnt bk s) = Again (snd (current_backoff env bk))"
    by simp
  from launch_loop_Again[OF this] show ?case using Suc.IH by simp
qed



section \<open>A failed provisioning attempt\<close>

text \<open>
  C3. Let \<open>_launch\<close> have gone round its loop \<open>k\<close> times and be at the top of it again, in
  state \<open>sk\<close> (this is what the result \<open>OutOfFuel\<close> with fuel \<open>k\<close> says); it has made \<open>k\<close>
  launches so far. Let the signal check return and \<open>sky.launch\<close> fail in attempt \<open>k + 1\<close>.
  If \<open>max_retry\<close> is set and \<open>k + 1\<close> has reached it, \<open>_launch\<close> ends in this attempt,
  whatever fuel is left: with \<open>ResourcesUnavailableError\<close> when \<open>raise_on_failure\<close>, with
  \<open>None\<close> otherwise, after the signal check and the launch and nothing else. In every
  other case, so always when \<open>max_retry\<close> is \<open>None\<close>, it draws the interval number \<open>k + 1\<close>
  of the backoff object made at the entry of \<open>_launch\<close>, calls \<open>time.sleep\<close> with it in the
  world the launch left, and is at the top of the loop again. With \<open>max_retry = None\<close>,
  when every signal check returns and every launch fails, \<open>_launch\<close> has not returned
  after any number of iterations, each of which made a launch.
\<close>

theorem launch_provisioning_failure:
  "(launch_impl env k max_retry raise_on_failure s = (OutOfFuel, sk)
    \<and> fst (signal_handler env (world sk)) = Value ()
    \<and> fst (sky_launch env (dag sk) (cluster_name sk) (blocked_regions sk) (blocked_zones sk)
            (snd (signal_handler env (world sk)))) = LaunchFailed msg \<longrightarrow>
      (let w = snd (sky_launch env (dag sk) (cluster_name sk) (blocked_regions sk)
                      (blocked_zones sk) (snd (signal_handler env (world sk))));
           g = fst (current_backoff env
                      (backoff_after env (Backoff env RETRY_INIT_GAP_SECONDS) k));
           failed = [SignalHandler (Value ()),
                     SkyLaunch (blocked_regions sk) (blocked_zones sk) (LaunchFailed msg)]
       in length (filter is_sky_launch (new_events s sk)) = k
          \<and> (max_retry \<noteq> None \<and> int k + 1 \<ge> the max_retry \<longrightarrow>
               launch_impl env (Suc (k + fuel)) max_retry raise_on_failure s =
                 (if raise_on_failure then Raise ResourcesUnavailableError else Return None,
                  (clear_if_exhausted msg sk)\<lparr>world := w, trace := trace sk @ failed\<rparr>))
          \<and> (max_retry = None \<or> int k + 1 < the max_retry \<longrightarrow>
               launch_impl env (Suc k) max_retry raise_on_failure s =
                 (OutOfFuel,
                  (clear_if_exhausted msg sk)
                    \<lparr>world := time_sleep env g w,
                     trace := trace sk @ failed @ [CurrentBackoff g, Sleep g]\<rparr>))))
   \<and> ((\<forall>w. fst (signal_handler env w) = Value ())
      \<and> (\<forall>d n br bz w. \<exists>m. fst (sky_launch env d n br bz w) = LaunchFailed m) \<longrightarrow>
        fst (launch_impl env fuel None raise_on_failure s) = OutOfFuel
        \<and> length (filter is_sky_launch
                    (new_events s (snd (launch_impl env fuel None raise_on_failure s)))) = fuel)"
proof (intro conjI impI)
  assume a: "(\<forall>w. fst (signal_handler env w) = Value ())
      \<and> (\<forall>d n br bz w. \<exists>m. fst (sky_launch env d n br bz w) = LaunchFailed m)"
  then have f: "fst (launch_impl env fuel None raise_on_failure s) = OutOfFuel"
    unfolding launch_impl_def
    using launch_loop_all_fail[of env fuel raise_on_failure 0
        "Backoff env RETRY_INIT_GAP_SECONDS" s] by blast
  then show "fst (launch_impl env fuel None raise_on_failure s) = OutOfFuel" .
  from f have "launch_loop env fuel None raise_on_failure 0 (Backoff env RETRY_INIT_GAP_SECONDS) s
       = (OutOfFuel, snd (launch_impl env fuel None raise_on_failure s))"
    by (simp add: launch_impl_def prod_eq_iff)
  from launch_loop_prefix(3)[OF this]
  show "length (filter is_sky_launch
                    (new_events s (snd (launch_impl env fuel None raise_on_failure s)))) = fuel" .
next
  let ?B = "Backoff env RETRY_INIT_GAP_SECONDS"
  let ?bk = "backoff_after env ?B k"
  let ?w = "snd (sky_launch env (dag sk) (cluster_name sk) (blocked_regions sk)
                      (blocked_zones sk) (snd (signal_handler env (world sk))))"
  let ?g = "fst (current_backoff env ?bk)"
  let ?failed = "[SignalHandler (Value ()),
                     SkyLaunch (blocked_regions sk) (blocked_zones sk) (LaunchFailed msg)]"
  let ?it = "launch_iteration env max_retry raise_on_failure (int k) ?bk sk"
  assume a: "launch_impl env k max_retry raise_on_failure s = (OutOfFuel, sk)
    \<and> fst (signal_handler env (world sk)) = Value ()
    \<and> fst (sky_launch env (dag sk) (cluster_name sk) (blocked_regions sk) (blocked_zones sk)
            (snd (signal_handler env (world sk)))) = LaunchFailed msg"
  then have pre: "launch_loop env k max_retry raise_on_failure 0 ?B s = (OutOfFuel, sk)"
    and sg: "fst (signal_handler env (world sk)) = Value ()"
    and lf: "fst (sky_launch env (dag sk) (cluster_name sk) (blocked_regions sk)
               (blocked_zones sk) (snd (signal_handler env (world sk)))) = LaunchFailed msg"
    by (simp_all add: launch_impl_def)
  note p = launch_loop_prefix[OF pre]
  have more: "\<And>n. launch_impl env (k + n) max_retry raise_on_failure s =
      launch_loop env n max_retry raise_on_failure (int k) ?bk sk"
    using p(1) by (simp add: launch_impl_def)
  note it = launch_iteration_failed_eq[OF sg lf, of max_retry raise_on_failure "int k" ?bk]
  have 1: "length (filter is_sky_launch (new_events s sk)) = k" by (rule p(3))
  have 2: "max_retry \<noteq> None \<and> int k + 1 \<ge> the max_retry \<longrightarrow>
               launch_impl env (Suc (k + fuel)) max_retry raise_on_failure s =
                 (if raise_on_failure then Raise ResourcesUnavailableError else Return None,
                  (clear_if_exhausted msg sk)\<lparr>world := ?w, trace := trace sk @ ?failed\<rparr>)"
  proof
    assume stop: "max_retry \<noteq> None \<and> int k + 1 \<ge> the max_retry"
    with it have eq: "?it =
        (Done (if raise_on_failure then Raise ResourcesUnavailableError else Return None),
         (clear_if_exhausted msg sk)\<lparr>world := ?w, trace := trace sk @ ?failed\<rparr>)" by simp
    then have "fst ?it =
        Done (if raise_on_failure then Raise ResourcesUnavailableError else Return None)"
      by simp
    from launch_loop_Done[OF this, of fuel] more[of "Suc fuel"] eq
    show "launch_impl env (Suc (k + fuel)) max_retry raise_on_failure s =
                 (if raise_on_failure then Raise ResourcesUnavailableError else Return None,
                  (clear_if_exhausted msg sk)\<lparr>world := ?w, trace := trace sk @ ?failed\<rparr>)"
      by simp
  qed
  have 3: "max_retry = None \<or> int k + 1 < the max_retry \<longrightarrow>
               launch_impl env (Suc k) max_retry raise_on_failure s =
                 (OutOfFuel,
                  (clear_if_exhausted msg sk)
                    \<lparr>world := time_sleep env ?g ?w,
                     trace := trace sk @ ?failed @ [CurrentBackoff ?g, Sleep ?g]\<rparr>)"
  proof
    assume "max_retry = None \<or> int k + 1 < the max_retry"
    then have go: "\<not> (max_retry \<noteq> None \<and> int k + 1 \<ge> the max_retry)" by auto
    with it have eq: "?it =
        (Again (snd (current_backoff env ?bk)),
         (clear_if_exhausted msg sk)
                    \<lparr>world := time_sleep env ?g ?w,
                     trace := trace sk @ ?failed @ [CurrentBackoff ?g, Sleep ?g]\<rparr>)" by simp
    then have "fst ?it = Again (snd (current_backoff env ?bk))" by simp
    from launch_loop_Again[OF this, of 0] more[of "Suc 0"] eq
    show "launch_impl env (Suc k) max_retry raise_on_failure s =
                 (OutOfFuel,
                  (clear_if_exhausted msg sk)
                    \<lparr>world := time_sleep env ?g ?w,
                     trace := trace sk @ ?failed @ [CurrentBackoff ?g, Sleep ?g]\<rparr>)"
      by simp
  qed
  from 1 2 3 show "(let w = ?w; g = ?g; failed = ?failed
       in length (filter is_sky_launch (new_events s sk)) = k
          \<and> (max_retry \<noteq> None \<and> int k + 1 \<ge> the max_retry \<longrightarrow>
               launch_impl env (Suc (k + fuel)) max_retry raise_on_failure s =
                 (if raise_on_failure then Raise ResourcesUnavailableError else Return None,
                  (clear_if_exhausted msg sk)\<lparr>world := w, trace := trace sk @ failed\<rparr>))
          \<and> (max_retry = None \<or> int k + 1 < the max_retry \<longrightarrow>
               launch_impl env (Suc k) max_retry raise_on_failure s =
                 (OutOfFuel,
                  (clear_if_exhausted msg sk)
                    \<lparr>world := time_sleep env g w,
                     trace := trace sk @ failed @ [CurrentBackoff g, Sleep g]\<rparr>)))"
    unfolding Let_def by blast
qed


theorem launch_provisioning_failure_witness:
  "launch_impl failing_env 2 (Some 3) True (demo_state FailoverStrategyExecutor False) =
     (OutOfFuel,
      (demo_state FailoverStrategyExecutor False)
        \<lparr>world := 202,
         trace := [SignalHandler (Value ()), SkyLaunch {} {} (LaunchFailed ''no capacity''),
                   CurrentBackoff 60, Sleep 60,
                   SignalHandler (Value ()), SkyLaunch {} {} (LaunchFailed ''no capacity''),
                   CurrentBackoff 120, Sleep 120]\<rparr>)
   \<and> launch_impl failing_env 3 (Some 3) True (demo_state FailoverStrategyExecutor False) =
     (Raise ResourcesUnavailableError,
      (demo_state FailoverStrategyExecutor False)
        \<lparr>world := 203,
         trace := [SignalHandler (Value ()), SkyLaunch {} {} (LaunchFailed ''no capacity''),
                   CurrentBackoff 60, Sleep 60,
                   SignalHandler (Value ()), SkyLaunch {} {} (LaunchFailed ''no capacity''),
                   CurrentBackoff 120, Sleep 120,
                   SignalHandler (Value ()), SkyLaunch {} {} (LaunchFailed ''no capacity'')]\<rparr>)
   \<and> launch_impl failing_env 1 (Some 3) False (demo_state FailoverStrategyExecutor False) =
     (OutOfFuel,
      (demo_state FailoverStrategyExecutor False)
        \<lparr>world := 101,
         trace := [SignalHandler (Value ()), SkyLaunch {} {} (LaunchFailed ''no capacity''),
                   CurrentBackoff 60, Sleep 60]\<rparr>)
   \<and> fst (launch_impl failing_env 7 None True (demo_state FailoverStrategyExecutor False))
       = OutOfFuel"
proof -
  let ?s = "demo_state FailoverStrategyExecutor False"
  let ?one = "[SignalHandler (Value ()), SkyLaunch {} {} (LaunchFailed ''no capacity'')]"
  let ?s2 = "?s\<lparr>world := 202,
         trace := ?one @ [CurrentBackoff 60, Sleep 60] @ ?one @ [CurrentBackoff 120, Sleep 120]\<rparr>"
  have env: "\<And>w. signal_handler failing_env w = (Value (), w)"
    "\<And>d n br bz w. sky_launch failing_env d n br bz w = (LaunchFailed ''no capacity'', Suc w)"
    "\<And>g w. time_sleep failing_env g w = w + 100"
    "\<And>b. current_backoff failing_env b = (b, 2 * b)"
    "Backoff failing_env RETRY_INIT_GAP_SECONDS = 60"
    by (simp_all add: failing_env_def demo_env_def RETRY_INIT_GAP_SECONDS_def)
  have "\<not> sublist exhausted_message ''no capacity''"
    using sublist_length_le[of exhausted_message "''no capacity''"]
    by (auto simp: exhausted_message_def)
  then have clr: "\<And>s::nat state. clear_if_exhausted ''no capacity'' s = s"
    by (simp add: clear_if_exhausted_def)
  have st: "blocked_regions ?s = {}" "blocked_zones ?s = {}" "world ?s = 0" "trace ?s = []"
    by (simp_all add: demo_state_def)
  have a: "launch_impl failing_env 2 (Some 3) True ?s = (OutOfFuel, ?s2)"
    by (simp add: launch_impl_def numeral_2_eq_2 launch_loop.simps(2) calls Let_def env clr st)
  have h2: "launch_impl failing_env 2 (Some 3) True ?s = (OutOfFuel, ?s2)
    \<and> fst (signal_handler failing_env (world ?s2)) = Value ()
    \<and> fst (sky_launch failing_env (dag ?s2) (cluster_name ?s2) (blocked_regions ?s2)
            (blocked_zones ?s2) (snd (signal_handler failing_env (world ?s2))))
        = LaunchFailed ''no capacity''"
    using a by (simp add: env)
  have h0: "launch_impl failing_env 0 (Some 3) False ?s = (OutOfFuel, ?s)
    \<and> fst (signal_handler failing_env (world ?s)) = Value ()
    \<and> fst (sky_launch failing_env (dag ?s) (cluster_name ?s) (blocked_regions ?s)
            (blocked_zones ?s) (snd (signal_handler failing_env (world ?s))))
        = LaunchFailed ''no capacity''"
    by (simp add: launch_impl_def env)
  have h7: "(\<forall>w. fst (signal_handler failing_env w) = Value ())
      \<and> (\<forall>d n br bz w. \<exists>m. fst (sky_launch failing_env d n br bz w) = LaunchFailed m)"
    by (simp add: env)
  from launch_provisioning_failure [where fuel = 0, THEN conjunct1, rule_format, OF h2]
  have b: "launch_impl failing_env 3 (Some 3) True ?s =
     (Raise ResourcesUnavailableError,
      ?s\<lparr>world := 203,
         trace := ?one @ [CurrentBackoff 60, Sleep 60] @ ?one @ [CurrentBackoff 120, Sleep 120]
                    @ ?one\<rparr>)"
    by (simp add: Let_def env clr st)
  from launch_provisioning_failure [where fuel = 0, THEN conjunct1, rule_format, OF h0]
  have c: "launch_impl failing_env 1 (Some 3) False ?s =
     (OutOfFuel, ?s\<lparr>world := 101, trace := ?one @ [CurrentBackoff 60, Sleep 60]\<rparr>)"
    by (simp add: Let_def env clr st)
  from launch_provisioning_failure [where fuel = 7 and s = ?s and raise_on_failure = True,
      THEN conjunct2, rule_format, OF h7]
  have d: "fst (launch_impl failing_env 7 None True ?s) = OutOfFuel" by simp
  from a b c d show ?thesis by simp
qed


section \<open>Relaunches asked for by the job-status loop\<close>

lemma preempting_iteration:
  "\<exists>bk'. fst (launch_iteration preempting_env mr rof cnt bk s) = Again bk'"
  by (simp add: launch_iteration_def calls Let_def record_tried_locations_def preempting_env_def
      demo_env_def poll_loop.simps)

lemma preempting_loop: "fst (launch_loop preempting_env fuel mr rof cnt bk s) = OutOfFuel"
proof (induction fuel arbitrary: cnt bk s)
  case 0
  show ?case by simp
next
  case (Suc fuel)
  from preempting_iteration[of mr rof cnt bk s] obtain bk' where
    "fst (launch_iteration preempting_env mr rof cnt bk s) = Again bk'" by blast
  from launch_loop_Again[OF this] show ?case using Suc.IH by simp
qed

text \<open>
  C2. What the code does where the claim fails: with \<open>max_retry = 3\<close>, in an environment
  where every launch succeeds and the cluster is never seen \<open>UP\<close> afterwards, \<open>_launch\<close>
  has not returned after any number of iterations, and it has made as many launches as
  iterations. The count is compared with \<open>max_retry\<close> only in the handler of a failed
  launch; a relaunch asked for by the job-status loop goes round without the comparison.
\<close>

theorem launch_unbounded_by_max_retry:
  "fst (launch_impl preempting_env fuel (Some 3) raise_on_failure
          (demo_state FailoverStrategyExecutor False)) = OutOfFuel
   \<and> length (filter is_sky_launch
               (new_events (demo_state FailoverStrategyExecutor False)
                  (snd (launch_impl preempting_env fuel (Some 3) raise_on_failure
                          (demo_state FailoverStrategyExecutor False))))) = fuel"
proof -
  let ?s = "demo_state FailoverStrategyExecutor False"
  let ?r = "launch_impl preempting_env fuel (Some 3) raise_on_failure ?s"
  have f: "fst ?r = OutOfFuel" unfolding launch_impl_def by (rule preempting_loop)
  then have "launch_loop preempting_env fuel (Some 3) raise_on_failure 0
       (Backoff preempting_env RETRY_INIT_GAP_SECONDS) ?s = (OutOfFuel, snd ?r)"
    by (simp add: launch_impl_def prod_eq_iff)
  from launch_loop_prefix(3)[OF this] f show ?thesis by simp
qed


section \<open>The signal check\<close>

lemma launch_iteration_signal_eq:
  assumes "fst (signal_handler env (world s)) = Raises e"
  shows "launch_iteration env mr rof cnt bk s =
     (Done (Raise e),
      s\<lparr>world := snd (signal_handler env (world s)),
        trace := trace s @ [SignalHandler (Raises e)]\<rparr>)"
  using assms by (simp add: launch_iteration_def calls Let_def)

lemma calm_events:
  "list_all is_record_event xs \<Longrightarrow> \<forall>e\<in>set xs. \<not> is_signal_handler e \<and> \<not> is_sky_launch e"
  "list_all is_poll_event xs \<Longrightarrow> \<forall>e\<in>set xs. \<not> is_signal_handler e \<and> \<not> is_sky_launch e"
proof -
  have r: "\<And>e. is_record_event e \<Longrightarrow> \<not> is_signal_handler e \<and> \<not> is_sky_launch e"
    by (case_tac e) simp_all
  have p: "\<And>e. is_poll_event e \<Longrightarrow> \<not> is_signal_handler e \<and> \<not> is_sky_launch e"
    by (case_tac e) simp_all
  show "list_all is_record_event xs \<Longrightarrow>
      \<forall>e\<in>set xs. \<not> is_signal_handler e \<and> \<not> is_sky_launch e"
    using r by (auto simp: list_all_iff)
  show "list_all is_poll_event xs \<Longrightarrow>
      \<forall>e\<in>set xs. \<not> is_signal_handler e \<and> \<not> is_sky_launch e"
    using p by (auto simp: list_all_iff)
qed

text \<open>
  The events of one iteration: a signal check that raised and nothing else, or a signal
  check that returned, the launch in the world the check left, and then neither of the two.
\<close>

lemma launch_iteration_shape:
  "(\<exists>e. fst (signal_handler env (world s)) = Raises e
        \<and> fst (launch_iteration env mr rof cnt bk s) = Done (Raise e)
        \<and> new_events s (snd (launch_iteration env mr rof cnt bk s)) = [SignalHandler (Raises e)])
   \<or> (fst (signal_handler env (world s)) = Value ()
      \<and> (\<exists>aft. new_events s (snd (launch_iteration env mr rof cnt bk s)) =
               SignalHandler (Value ())
               # SkyLaunch (blocked_regions s) (blocked_zones s)
                   (fst (sky_launch env (dag s) (cluster_name s) (blocked_regions s)
                          (blocked_zones s) (snd (signal_handler env (world s)))))
               # aft
            \<and> (\<forall>e\<in>set aft. \<not> is_signal_handler e \<and> \<not> is_sky_launch e)))"
proof (cases "fst (call_signal_handler env s)")
  case (Raises e)
  then have "fst (signal_handler env (world s)) = Raises e" by (simp add: calls Let_def)
  with launch_iteration_signal[OF Raises, of mr rof cnt bk] steps_facts(3) show ?thesis
    by blast
next
  case (Value u)
  let ?it = "launch_iteration env mr rof cnt bk s"
  let ?rep = "fst (sky_launch env (dag s) (cluster_name s) (blocked_regions s)
                          (blocked_zones s) (snd (signal_handler env (world s))))"
  from Value have sg: "fst (signal_handler env (world s)) = Value ()"
    by (simp add: calls Let_def)
  have rep: "fst (call_sky_launch env (snd (call_signal_handler env s))) = ?rep"
    by (simp add: calls Let_def)
  have "\<exists>aft. new_events s (snd ?it) =
               SignalHandler (Value ()) # SkyLaunch (blocked_regions s) (blocked_zones s) ?rep # aft
            \<and> (\<forall>e\<in>set aft. \<not> is_signal_handler e \<and> \<not> is_sky_launch e)"
  proof (cases "fst (call_sky_launch env (snd (call_signal_handler env s)))")
    case (LaunchFailed msg)
    from run_facts(2)[OF launch_iteration_failed(3)[OF Value LaunchFailed, of mr rof cnt bk]]
      LaunchFailed rep
    show ?thesis by auto
  next
    case Launched
    let ?hd = "[SignalHandler (Value ()), SkyLaunch (blocked_regions s) (blocked_zones s) Launched]"
    from launch_iteration_launched[OF Value Launched, of mr rof cnt bk]
    obtain rec pe bo where rec: "list_all is_record_event rec" and pe: "list_all is_poll_event pe"
      and st: "steps s (?hd @ rec @ pe @ bo) (snd ?it)"
      and bo: "\<forall>e\<in>set bo. \<not> is_signal_handler e \<and> \<not> is_sky_launch e"
    proof (elim exE conjE disjE)
      fix rec pe t st
      assume "list_all is_record_event rec" "list_all is_poll_event pe"
        "steps s (?hd @ rec @ pe
                       @ [RefreshClusterStatus (Value UP),
                          Sleep (JOB_STARTED_STATUS_CHECK_GAP_SECONDS env),
                          GetJobStatus (Value (Some st)), GetJobTimestamp (Value t)]) (snd ?it)"
      then show thesis by (intro that[of rec pe "[RefreshClusterStatus (Value UP),
                          Sleep (JOB_STARTED_STATUS_CHECK_GAP_SECONDS env),
                          GetJobStatus (Value (Some st)), GetJobTimestamp (Value t)]"]) simp_all
    next
      fix rec pe
      assume "list_all is_record_event rec" "list_all is_poll_event pe"
        "steps s (?hd @ rec @ pe
                       @ [CurrentBackoff (fst (current_backoff env bk)),
                          Sleep (fst (current_backoff env bk))]) (snd ?it)"
      then show thesis by (intro that[of rec pe "[CurrentBackoff (fst (current_backoff env bk)),
                          Sleep (fst (current_backoff env bk))]"]) simp_all
    next
      fix rec pe
      assume "list_all is_record_event rec" "list_all is_poll_event pe"
        "steps s (?hd @ rec @ pe) (snd ?it)"
      then show thesis by (intro that[of rec pe "[]"]) simp_all
    qed
    from steps_facts(3)[OF st] Launched rep
    have "new_events s (snd ?it) =
        SignalHandler (Value ()) # SkyLaunch (blocked_regions s) (blocked_zones s) ?rep
          # (rec @ pe @ bo)" by simp
    moreover have "\<forall>e\<in>set (rec @ pe @ bo). \<not> is_signal_handler e \<and> \<not> is_sky_launch e"
      using calm_events(1)[OF rec] calm_events(2)[OF pe] bo by auto
    ultimately show ?thesis by blast
  qed
  with sg show ?thesis by blast
qed

lemma launches_checked_calm:
  "\<forall>e\<in>set aft. \<not> is_signal_handler e \<and> \<not> is_sky_launch e \<Longrightarrow>
     launches_checked False (aft @ es) = launches_checked False es"
proof (induction aft)
  case Nil
  show ?case by simp
next
  case (Cons e aft)
  then have "\<not> is_signal_handler e \<and> \<not> is_sky_launch e" by simp
  then have "launches_checked False ((e # aft) @ es) = launches_checked False (aft @ es)"
    by (cases e) simp_all
  with Cons show ?case by simp
qed

lemma launch_loop_checked:
  "launches_checked False (new_events s (snd (launch_loop env fuel mr rof cnt bk s)))"
proof (induction fuel arbitrary: cnt bk s)
  case 0
  show ?case by simp
next
  case (Suc fuel)
  let ?it = "launch_iteration env mr rof cnt bk s"
  note sh = launch_iteration_shape[of env s mr rof cnt bk]
  show ?case
  proof (cases "fst ?it")
    case (Done r)
    have "launches_checked False (new_events s (snd ?it))"
      using sh launches_checked_calm[of _ "[]"] by auto
    then show ?thesis unfolding launch_loop_Done[OF Done] by simp
  next
    case (Again bk')
    let ?r = "launch_loop env fuel mr rof (cnt + 1) bk' (snd ?it)"
    have ev: "new_events s (snd ?r) = new_events s (snd ?it) @ new_events (snd ?it) (snd ?r)"
      by (rule grows_trans(2)[OF launch_iteration_grows launch_loop_grows])
    from sh Again obtain rep aft where
      e: "new_events s (snd ?it) = SignalHandler (Value ()) # SkyLaunch (blocked_regions s)
            (blocked_zones s) rep # aft"
      and c: "\<forall>e\<in>set aft. \<not> is_signal_handler e \<and> \<not> is_sky_launch e" by auto
    have "launches_checked False (new_events s (snd ?r)) =
        launches_checked False (new_events (snd ?it) (snd ?r))"
      unfolding ev e using launches_checked_calm[OF c] by simp
    with Suc.IH show ?thesis unfolding launch_loop_Again[OF Again] by simp
  qed
qed


text \<open>
  C5. In every run of \<open>_launch\<close>, every call of \<open>sky.launch\<close> comes directly after a
  signal check that returned, and a signal check that raised is the last call of the run.
  When the signal check raises \<open>e\<close> at the entry of \<open>_launch\<close>, \<open>_launch\<close> raises \<open>e\<close>
  after this one call: no launch is issued. The same holds at the top of the loop after
  any number \<open>k\<close> of iterations: when the check raises there, \<open>_launch\<close> raises \<open>e\<close> with
  nothing called after the check. When the check returns there, the next call is
  \<open>sky.launch\<close>, in the world the check left and with the blocklists of that moment.
\<close>

theorem signal_check_before_every_launch:
  "launches_checked False (new_events s (snd (launch_impl env fuel max_retry raise_on_failure s)))
   \<and> (fst (signal_handler env (world s)) = Raises e \<longrightarrow>
        launch_impl env (Suc fuel) max_retry raise_on_failure s =
          (Raise e,
           s\<lparr>world := snd (signal_handler env (world s)),
             trace := trace s @ [SignalHandler (Raises e)]\<rparr>))
   \<and> (launch_impl env k max_retry raise_on_failure s = (OutOfFuel, sk)
      \<and> fst (signal_handler env (world sk)) = Raises e \<longrightarrow>
        launch_impl env (Suc (k + fuel)) max_retry raise_on_failure s =
          (Raise e,
           sk\<lparr>world := snd (signal_handler env (world sk)),
              trace := trace sk @ [SignalHandler (Raises e)]\<rparr>))
   \<and> (launch_impl env k max_retry raise_on_failure s = (OutOfFuel, sk)
      \<and> fst (signal_handler env (world sk)) = Value () \<longrightarrow>
        (\<exists>rest. new_events sk (snd (launch_impl env (Suc (k + fuel)) max_retry raise_on_failure s)) =
            SignalHandler (Value ())
            # SkyLaunch (blocked_regions sk) (blocked_zones sk)
                (fst (sky_launch env (dag sk) (cluster_name sk) (blocked_regions sk)
                       (blocked_zones sk) (snd (signal_handler env (world sk)))))
            # rest))"
proof (intro conjI impI)
  show "launches_checked False
      (new_events s (snd (launch_impl env fuel max_retry raise_on_failure s)))"
    unfolding launch_impl_def by (rule launch_loop_checked)
next
  assume a: "fst (signal_handler env (world s)) = Raises e"
  let ?B = "Backoff env RETRY_INIT_GAP_SECONDS"
  note eq = launch_iteration_signal_eq[OF a, of max_retry raise_on_failure 0 ?B]
  then have "fst (launch_iteration env max_retry raise_on_failure 0 ?B s) = Done (Raise e)"
    by simp
  from launch_loop_Done[OF this, of fuel] eq
  show "launch_impl env (Suc fuel) max_retry raise_on_failure s =
          (Raise e,
           s\<lparr>world := snd (signal_handler env (world s)),
             trace := trace s @ [SignalHandler (Raises e)]\<rparr>)"
    by (simp add: launch_impl_def)
next
  let ?B = "Backoff env RETRY_INIT_GAP_SECONDS"
  let ?bk = "backoff_after env ?B k"
  assume a: "launch_impl env k max_retry raise_on_failure s = (OutOfFuel, sk)
      \<and> fst (signal_handler env (world sk)) = Raises e"
  then have pre: "launch_loop env k max_retry raise_on_failure 0 ?B s = (OutOfFuel, sk)"
    and sg: "fst (signal_handler env (world sk)) = Raises e"
    by (simp_all add: launch_impl_def)
  have more: "launch_impl env (k + Suc fuel) max_retry raise_on_failure s =
      launch_loop env (Suc fuel) max_retry raise_on_failure (int k) ?bk sk"
    using launch_loop_prefix(1)[OF pre, of "Suc fuel"] by (simp add: launch_impl_def)
  note eq = launch_iteration_signal_eq[OF sg, of max_retry raise_on_failure "int k" ?bk]
  then have "fst (launch_iteration env max_retry raise_on_failure (int k) ?bk sk)
      = Done (Raise e)" by simp
  from launch_loop_Done[OF this, of fuel] eq more
  show "launch_impl env (Suc (k + fuel)) max_retry raise_on_failure s =
          (Raise e,
           sk\<lparr>world := snd (signal_handler env (world sk)),
              trace := trace sk @ [SignalHandler (Raises e)]\<rparr>)"
    by simp
next
  let ?B = "Backoff env RETRY_INIT_GAP_SECONDS"
  let ?bk = "backoff_after env ?B k"
  let ?it = "launch_iteration env max_retry raise_on_failure (int k) ?bk sk"
  let ?rep = "fst (sky_launch env (dag sk) (cluster_name sk) (blocked_regions sk)
                       (blocked_zones sk) (snd (signal_handler env (world sk))))"
  assume a: "launch_impl env k max_retry raise_on_failure s = (OutOfFuel, sk)
      \<and> fst (signal_handler env (world sk)) = Value ()"
  then have pre: "launch_loop env k max_retry raise_on_failure 0 ?B s = (OutOfFuel, sk)"
    and sg: "fst (signal_handler env (world sk)) = Value ()"
    by (simp_all add: launch_impl_def)
  have more: "launch_impl env (Suc (k + fuel)) max_retry raise_on_failure s =
      launch_loop env (Suc fuel) max_retry raise_on_failure (int k) ?bk sk"
    using launch_loop_prefix(1)[OF pre, of "Suc fuel"] by (simp add: launch_impl_def)
  from launch_iteration_shape[of env sk max_retry raise_on_failure "int k" ?bk] sg
  obtain aft where e: "new_events sk (snd ?it) =
      SignalHandler (Value ()) # SkyLaunch (blocked_regions sk) (blocked_zones sk) ?rep # aft"
    by auto
  have "\<exists>rest. new_events sk
         (snd (launch_loop env (Suc fuel) max_retry raise_on_failure (int k) ?bk sk)) =
      SignalHandler (Value ()) # SkyLaunch (blocked_regions sk) (blocked_zones sk) ?rep # rest"
  proof (cases "fst ?it")
    case (Done r)
    show ?thesis unfolding launch_loop_Done[OF Done] using e by simp
  next
    case (Again bk')
    let ?r = "launch_loop env fuel max_retry raise_on_failure (int k + 1) bk' (snd ?it)"
    have "new_events sk (snd ?r) = new_events sk (snd ?it) @ new_events (snd ?it) (snd ?r)"
      by (rule grows_trans(2)[OF launch_iteration_grows launch_loop_grows])
    then show ?thesis unfolding launch_loop_Again[OF Again] using e by simp
  qed
  then show "\<exists>rest. new_events sk
         (snd (launch_impl env (Suc (k + fuel)) max_retry raise_on_failure s)) =
      SignalHandler (Value ()) # SkyLaunch (blocked_regions sk) (blocked_zones sk) ?rep # rest"
    unfolding more .
qed

theorem signal_check_before_every_launch_witness:
  "launch_impl cancelled_env 5 (Some 3) True (demo_state FailoverStrategyExecutor False) =
     (Raise SpotUserCancelledError,
      (demo_state FailoverStrategyExecutor False)
        \<lparr>trace := [SignalHandler (Raises SpotUserCancelledError)]\<rparr>)
   \<and> launch_impl cancel_after_env 1 (Some 3) True (demo_state FailoverStrategyExecutor False) =
     (OutOfFuel,
      (demo_state FailoverStrategyExecutor False)
        \<lparr>world := 101,
         trace := [SignalHandler (Value ()), SkyLaunch {} {} (LaunchFailed ''no capacity''),
                   CurrentBackoff 60, Sleep 60]\<rparr>)
   \<and> launch_impl cancel_after_env 5 (Some 3) True (demo_state FailoverStrategyExecutor False) =
     (Raise SpotUserCancelledError,
      (demo_state FailoverStrategyExecutor False)
        \<lparr>world := 101,
         trace := [SignalHandler (Value ()), SkyLaunch {} {} (LaunchFailed ''no capacity''),
                   CurrentBackoff 60, Sleep 60, SignalHandler (Raises SpotUserCancelledError)]\<rparr>)
   \<and> (\<exists>rest. new_events (demo_state FailoverStrategyExecutor False)
         (snd (launch_impl cancel_after_env 5 (Some 3) True
                 (demo_state FailoverStrategyExecutor False))) =
         SignalHandler (Value ()) # SkyLaunch {} {} (LaunchFailed ''no capacity'') # rest)"
proof -
  let ?s = "demo_state FailoverStrategyExecutor False"
  let ?one = "[SignalHandler (Value ()), SkyLaunch {} {} (LaunchFailed ''no capacity'')]"
  let ?s1 = "?s\<lparr>world := 101, trace := ?one @ [CurrentBackoff 60, Sleep 60]\<rparr>"
  have env: "\<And>w. signal_handler cancel_after_env w =
        (if w < 100 then Value () else Raises SpotUserCancelledError, w)"
    "\<And>d n br bz w. sky_launch cancel_after_env d n br bz w =
        (LaunchFailed ''no capacity'', Suc w)"
    "\<And>g w. time_sleep cancel_after_env g w = w + 100"
    "\<And>b. current_backoff cancel_after_env b = (b, 2 * b)"
    "Backoff cancel_after_env RETRY_INIT_GAP_SECONDS = 60"
    by (simp_all add: cancel_after_env_def failing_env_def demo_env_def
        RETRY_INIT_GAP_SECONDS_def)
  have "\<not> sublist exhausted_message ''no capacity''"
    using sublist_length_le[of exhausted_message "''no capacity''"]
    by (auto simp: exhausted_message_def)
  then have clr: "\<And>s::nat state. clear_if_exhausted ''no capacity'' s = s"
    by (simp add: clear_if_exhausted_def)
  have st: "blocked_regions ?s = {}" "blocked_zones ?s = {}" "world ?s = 0" "trace ?s = []"
    by (simp_all add: demo_state_def)
  have h0: "fst (signal_handler cancelled_env (world ?s)) = Raises SpotUserCancelledError"
    by (simp add: cancelled_env_def demo_env_def)
  from signal_check_before_every_launch
    [where fuel = 4, THEN conjunct2, THEN conjunct1, rule_format, OF h0]
  have a: "launch_impl cancelled_env 5 (Some 3) True ?s =
     (Raise SpotUserCancelledError, ?s\<lparr>trace := [SignalHandler (Raises SpotUserCancelledError)]\<rparr>)"
    by (simp add: cancelled_env_def demo_env_def demo_state_def)
  have b: "launch_impl cancel_after_env 1 (Some 3) True ?s = (OutOfFuel, ?s1)"
    by (simp add: launch_impl_def launch_loop.simps(2) calls Let_def env clr st)
  have h1: "launch_impl cancel_after_env 1 (Some 3) True ?s = (OutOfFuel, ?s1)
      \<and> fst (signal_handler cancel_after_env (world ?s1)) = Raises SpotUserCancelledError"
    using b by (simp add: env)
  from signal_check_before_every_launch
    [where fuel = 3, THEN conjunct2, THEN conjunct2, THEN conjunct1, rule_format, OF h1]
  have c: "launch_impl cancel_after_env 5 (Some 3) True ?s =
     (Raise SpotUserCancelledError,
      ?s\<lparr>world := 101,
         trace := ?one @ [CurrentBackoff 60, Sleep 60, SignalHandler (Raises SpotUserCancelledError)]\<rparr>)"
    by (simp add: env)
  have h2: "launch_impl cancel_after_env 0 (Some 3) True ?s = (OutOfFuel, ?s)
      \<and> fst (signal_handler cancel_after_env (world ?s)) = Value ()"
    by (simp add: launch_impl_def env st)
  from signal_check_before_every_launch
    [where fuel = 4, THEN conjunct2, THEN conjunct2, THEN conjunct2, rule_format, OF h2]
  have d: "\<exists>rest. new_events ?s (snd (launch_impl cancel_after_env 5 (Some 3) True ?s)) =
         SignalHandler (Value ()) # SkyLaunch {} {} (LaunchFailed ''no capacity'') # rest"
    by (simp add: env st)
  from a b c d show ?thesis by simp
qed


section \<open>The backoff object\<close>

lemma backoff_gaps_append: "backoff_gaps (xs @ ys) = backoff_gaps xs @ backoff_gaps ys"
  by (induction xs rule: backoff_gaps.induct) simp_all

lemma no_backoff_events:
  "list_all is_record_event xs \<Longrightarrow> backoff_gaps xs = []"
  "list_all is_poll_event xs \<Longrightarrow> backoff_gaps xs = []"
proof -
  show "list_all is_record_event xs \<Longrightarrow> backoff_gaps xs = []"
    by (induction xs rule: backoff_gaps.induct) simp_all
  show "list_all is_poll_event xs \<Longrightarrow> backoff_gaps xs = []"
    by (induction xs rule: backoff_gaps.induct) simp_all
qed

lemma launch_iteration_gaps:
  "backoff_gaps (new_events s (snd (launch_iteration env mr rof cnt bk s))) =
     (case fst (launch_iteration env mr rof cnt bk s) of
        Done r \<Rightarrow> []
      | Again bk' \<Rightarrow> [fst (current_backoff env bk)])"
proof (cases "fst (call_signal_handler env s)")
  case (Raises e)
  from launch_iteration_signal[OF Raises, of mr rof cnt bk] steps_facts(3)
  show ?thesis by fastforce
next
  case (Value u)
  let ?it = "launch_iteration env mr rof cnt bk s"
  show ?thesis
  proof (cases "fst (call_sky_launch env (snd (call_signal_handler env s)))")
    case (LaunchFailed msg)
    note f = launch_iteration_failed[OF Value LaunchFailed, of mr rof cnt bk]
    from run_facts(2)[OF f(3)] f(1) show ?thesis by simp
  next
    case Launched
    let ?hd = "[SignalHandler (Value ()), SkyLaunch (blocked_regions s) (blocked_zones s) Launched]"
    from launch_iteration_launched[OF Value Launched, of mr rof cnt bk]
    show ?thesis
    proof (elim exE conjE disjE)
      fix rec pe t st
      assume rec: "list_all is_record_event rec" and pe: "list_all is_poll_event pe"
        and r: "fst ?it = Done (Return (Some t))"
        and st: "steps s (?hd @ rec @ pe
                       @ [RefreshClusterStatus (Value UP),
                          Sleep (JOB_STARTED_STATUS_CHECK_GAP_SECONDS env),
                          GetJobStatus (Value (Some st)), GetJobTimestamp (Value t)]) (snd ?it)"
      show ?thesis
        unfolding steps_facts(3)[OF st] r
        by (simp add: backoff_gaps_append no_backoff_events(1)[OF rec] no_backoff_events(2)[OF pe])
    next
      fix rec pe
      assume rec: "list_all is_record_event rec" and pe: "list_all is_poll_event pe"
        and r: "fst ?it = Again (snd (current_backoff env bk))"
        and st: "steps s (?hd @ rec @ pe
                       @ [CurrentBackoff (fst (current_backoff env bk)),
                          Sleep (fst (current_backoff env bk))]) (snd ?it)"
      show ?thesis
        unfolding steps_facts(3)[OF st] r
        by (simp add: backoff_gaps_append no_backoff_events(1)[OF rec] no_backoff_events(2)[OF pe])
    next
      fix rec pe
      assume rec: "list_all is_record_event rec" and pe: "list_all is_poll_event pe"
        and r: "fst ?it = Done (Return None)"
        and st: "steps s (?hd @ rec @ pe) (snd ?it)"
      show ?thesis
        unfolding steps_facts(3)[OF st] r
        by (simp add: backoff_gaps_append no_backoff_events(1)[OF rec] no_backoff_events(2)[OF pe])
    qed
  qed
qed

lemma launch_loop_gaps:
  "backoff_gaps (new_events s (snd (launch_loop env fuel mr rof cnt bk s))) =
     backoff_seq env bk
       (length (backoff_gaps (new_events s (snd (launch_loop env fuel mr rof cnt bk s)))))"
proof (induction fuel arbitrary: cnt bk s)
  case 0
  show ?case by simp
next
  case (Suc fuel)
  let ?it = "launch_iteration env mr rof cnt bk s"
  note g = launch_iteration_gaps[of s env mr rof cnt bk]
  show ?case
  proof (cases "fst ?it")
    case (Done r)
    show ?thesis unfolding launch_loop_Done[OF Done] using g Done by simp
  next
    case (Again bk')
    let ?r = "launch_loop env fuel mr rof (cnt + 1) bk' (snd ?it)"
    have ev: "new_events s (snd ?r) = new_events s (snd ?it) @ new_events (snd ?it) (snd ?r)"
      by (rule grows_trans(2)[OF launch_iteration_grows launch_loop_grows])
    have b: "bk' = snd (current_backoff env bk)" by (rule launch_iteration_Again(1)[OF Again])
    have "backoff_gaps (new_events s (snd ?r)) =
        fst (current_backoff env bk) # backoff_gaps (new_events (snd ?it) (snd ?r))"
      unfolding ev backoff_gaps_append using g Again by simp
    moreover note Suc.IH[where cnt = "cnt + 1" and bk = bk' and s = "snd ?it"]
    ultimately show ?thesis unfolding launch_loop_Again[OF Again] using b by simp
  qed
qed


lemma launch_loop_prefix_gaps:
  "launch_loop env k mr rof cnt bk s = (OutOfFuel, sk) \<Longrightarrow>
     length (backoff_gaps (new_events s sk)) = k"
proof (induction k arbitrary: cnt bk s)
  case 0
  then show ?case by simp
next
  case (Suc k)
  let ?it = "launch_iteration env mr rof cnt bk s"
  show ?case
  proof (cases "fst ?it")
    case (Done r)
    from Suc.prems launch_loop_Done[OF Done, of k] launch_iteration_Done[of env mr rof cnt bk s]
      Done show ?thesis by simp
  next
    case (Again bk')
    from Suc.prems launch_loop_Again[OF Again, of k]
    have run: "launch_loop env k mr rof (cnt + 1) bk' (snd ?it) = (OutOfFuel, sk)" by simp
    have ev: "new_events s sk = new_events s (snd ?it) @ new_events (snd ?it) sk"
      by (rule grows_trans(2)[OF launch_iteration_grows launch_loop_prefix(2)[OF run]])
    show ?thesis
      unfolding ev backoff_gaps_append
      using Suc.IH[OF run] launch_iteration_gaps[of s env mr rof cnt bk] Again by simp
  qed
qed

lemma terminate_cluster_gaps:
  "backoff_gaps (new_events s (snd (terminate_cluster env mr s))) = []"
proof -
  let ?r = "call_get_handle_from_cluster_name env s"
  have t: "trace (snd ?r) = trace s @ [GetHandle (fst ?r)]" by (simp add: calls Let_def)
  have rp: "\<And>k h b. backoff_gaps (replicate k (Teardown h b)) = []"
  proof -
    fix k h b show "backoff_gaps (replicate k (Teardown h b)) = []" by (induction k) simp_all
  qed
  show ?thesis
  proof (cases "fst ?r")
    case None
    then have "terminate_cluster env mr s = (Return (), snd ?r)"
      by (simp add: terminate_cluster_def Let_def)
    then show ?thesis using t by (simp add: new_events_def)
  next
    case (Some h)
    then have eq: "terminate_cluster env mr s = terminate_loop env h mr 0 (snd ?r)"
      by (simp add: terminate_cluster_def Let_def)
    from terminate_loop_trace[of "snd ?r" env h mr 0] obtain k where
      "trace (snd (terminate_loop env h mr 0 (snd ?r)))
           = trace (snd ?r) @ replicate k (Teardown h False) @ [Teardown h True]
       \<or> trace (snd (terminate_loop env h mr 0 (snd ?r)))
           = trace (snd ?r) @ replicate k (Teardown h False)" by blast
    then show ?thesis unfolding eq t
      by (auto simp: new_events_def backoff_gaps_append rp)
  qed
qed

text \<open>
  C9, the claim as stated fails: one call of \<open>recover\<close> on one executor, in which the first
  relaunch gives up after three failed launches and the second succeeds at its second
  launch, draws the intervals 60, 120 and then 60 again.
\<close>

theorem backoff_restarts_within_instance:
  "fst (failover_recover recovering_env 4 (demo_state FailoverStrategyExecutor True)) = Return 1000
   \<and> backoff_gaps (new_events (demo_state FailoverStrategyExecutor True)
        (snd (failover_recover recovering_env 4 (demo_state FailoverStrategyExecutor True))))
       = [60, 120, 60]"
proof -
  have "\<not> sublist exhausted_message ''no capacity''"
    using sublist_length_le[of exhausted_message "''no capacity''"]
    by (auto simp: exhausted_message_def)
  then have clr: "\<And>s::nat state. clear_if_exhausted ''no capacity'' s = s"
    by (simp add: clear_if_exhausted_def)
  show ?thesis
    by (simp add: failover_recover_def uncaught_by_cancel_def calls Let_def eval_nat_numeral
        terminate_cluster_def terminate_loop.simps launch_impl_def launch_loop.simps(2) clr
        record_tried_locations_def poll_loop.simps recovering_env_def demo_env_def demo_state_def
        demo_handle_def demo_resources_def RETRY_INIT_GAP_SECONDS_def new_events_def)
qed

text \<open>
  C9, amended. The backoff object is made at the entry of \<open>_launch\<close>, not with the
  executor. The intervals drawn in one call of \<open>_launch\<close> are, in order, the first
  intervals of one object made from the base interval \<open>RETRY_INIT_GAP_SECONDS\<close>; when the
  call is at the top of its loop after \<open>k\<close> iterations it has drawn exactly the first \<open>k\<close>
  of them. So every call of \<open>_launch\<close> starts again from the base interval, whatever the
  executor did before. \<open>terminate_cluster\<close> draws no interval.
\<close>

theorem backoff_per_launch:
  "backoff_gaps (new_events s (snd (launch_impl env fuel max_retry raise_on_failure s))) =
     backoff_seq env (Backoff env RETRY_INIT_GAP_SECONDS)
       (length (backoff_gaps
                 (new_events s (snd (launch_impl env fuel max_retry raise_on_failure s)))))
   \<and> (launch_impl env k max_retry raise_on_failure s = (OutOfFuel, sk) \<longrightarrow>
        backoff_gaps (new_events s sk) = backoff_seq env (Backoff env RETRY_INIT_GAP_SECONDS) k)
   \<and> backoff_gaps (new_events s (snd (terminate_cluster env n s))) = []"
proof (intro conjI impI)
  show "backoff_gaps (new_events s (snd (launch_impl env fuel max_retry raise_on_failure s))) =
     backoff_seq env (Backoff env RETRY_INIT_GAP_SECONDS)
       (length (backoff_gaps
                 (new_events s (snd (launch_impl env fuel max_retry raise_on_failure s)))))"
    unfolding launch_impl_def by (rule launch_loop_gaps)
next
  let ?B = "Backoff env RETRY_INIT_GAP_SECONDS"
  assume "launch_impl env k max_retry raise_on_failure s = (OutOfFuel, sk)"
  then have run: "launch_loop env k max_retry raise_on_failure 0 ?B s = (OutOfFuel, sk)"
    by (simp add: launch_impl_def)
  from launch_loop_gaps[of s env k max_retry raise_on_failure 0 ?B] run
  have "backoff_gaps (new_events s sk) =
      backoff_seq env ?B (length (backoff_gaps (new_events s sk)))" by simp
  with launch_loop_prefix_gaps[OF run]
  show "backoff_gaps (new_events s sk) = backoff_seq env ?B k" by simp
next
  show "backoff_gaps (new_events s (snd (terminate_cluster env n s))) = []"
    by (rule terminate_cluster_gaps)
qed

theorem backoff_per_launch_witness:
  "launch_impl failing_env 2 (Some 3) False (demo_state CrossRegion True) =
     (OutOfFuel,
      (demo_state CrossRegion True)
        \<lparr>world := 202,
         trace := [SignalHandler (Value ()), SkyLaunch {} {} (LaunchFailed ''no capacity''),
                   CurrentBackoff 60, Sleep 60,
                   SignalHandler (Value ()), SkyLaunch {} {} (LaunchFailed ''no capacity''),
                   CurrentBackoff 120, Sleep 120]\<rparr>)
   \<and> backoff_seq failing_env (Backoff failing_env RETRY_INIT_GAP_SECONDS) 2 = [60, 120]
   \<and> backoff_gaps (new_events (demo_state CrossRegion True)
        ((demo_state CrossRegion True)
        \<lparr>world := 202,
         trace := [SignalHandler (Value ()), SkyLaunch {} {} (LaunchFailed ''no capacity''),
                   CurrentBackoff 60, Sleep 60,
                   SignalHandler (Value ()), SkyLaunch {} {} (LaunchFailed ''no capacity''),
                   CurrentBackoff 120, Sleep 120]\<rparr>)) = [60, 120]"
proof -
  let ?s = "demo_state CrossRegion True"
  let ?one = "[SignalHandler (Value ()), SkyLaunch {} {} (LaunchFailed ''no capacity'')]"
  let ?s2 = "?s\<lparr>world := 202,
         trace := ?one @ [CurrentBackoff 60, Sleep 60] @ ?one @ [CurrentBackoff 120, Sleep 120]\<rparr>"
  have env: "\<And>w. signal_handler failing_env w = (Value (), w)"
    "\<And>d n br bz w. sky_launch failing_env d n br bz w = (LaunchFailed ''no capacity'', Suc w)"
    "\<And>g w. time_sleep failing_env g w = w + 100"
    "\<And>b. current_backoff failing_env b = (b, 2 * b)"
    "Backoff failing_env RETRY_INIT_GAP_SECONDS = 60"
    by (simp_all add: failing_env_def demo_env_def RETRY_INIT_GAP_SECONDS_def)
  have "\<not> sublist exhausted_message ''no capacity''"
    using sublist_length_le[of exhausted_message "''no capacity''"]
    by (auto simp: exhausted_message_def)
  then have clr: "\<And>s::nat state. clear_if_exhausted ''no capacity'' s = s"
    by (simp add: clear_if_exhausted_def)
  have st: "blocked_regions ?s = {}" "blocked_zones ?s = {}" "world ?s = 0" "trace ?s = []"
    by (simp_all add: demo_state_def)
  have a: "launch_impl failing_env 2 (Some 3) False ?s = (OutOfFuel, ?s2)"
    by (simp add: launch_impl_def numeral_2_eq_2 launch_loop.simps(2) calls Let_def env clr st)
  have b: "backoff_seq failing_env (Backoff failing_env RETRY_INIT_GAP_SECONDS) 2 = [60, 120]"
    by (simp add: numeral_2_eq_2 env)
  from backoff_per_launch [THEN conjunct2, THEN conjunct1, rule_format, OF a] b
  have c: "backoff_gaps (new_events ?s ?s2) = [60, 120]" by simp
  from a b c show ?thesis by simp
qed


section \<open>What \<open>_launch\<close> returns\<close>




lemma record_tried_locations_name [simp]:
  "cluster_name (record_tried_locations env s) = cluster_name s"
  by (simp add: record_tried_locations_def calls Let_def split: option.splits)










section \<open>The loops of \<open>recover\<close>\<close>

lemma trace_only [simp]:
  "new_events s (s'\<lparr>blocked_zones := z\<rparr>) = new_events s s'"
  "new_events s (s'\<lparr>blocked_regions := r\<rparr>) = new_events s s'"
  "new_events (s\<lparr>blocked_zones := z\<rparr>) s' = new_events s s'"
  "new_events (s\<lparr>blocked_regions := r\<rparr>) s' = new_events s s'"
  "grows s (s'\<lparr>blocked_zones := z\<rparr>) = grows s s'"
  "grows s (s'\<lparr>blocked_regions := r\<rparr>) = grows s s'"
  "grows (s\<lparr>blocked_zones := z\<rparr>) s' = grows s s'"
  "grows (s\<lparr>blocked_regions := r\<rparr>) s' = grows s s'"
  by (simp_all add: new_events_def grows_def)

lemma first_launch_append:
  "first_launch (xs @ ys) = (case first_launch xs of None \<Rightarrow> first_launch ys | Some p \<Rightarrow> Some p)"
  by (induction xs rule: first_launch.induct) simp_all

lemma first_launch_none:
  "\<forall>e\<in>set xs. \<not> is_sky_launch e \<Longrightarrow> first_launch xs = None"
  by (induction xs rule: first_launch.induct) simp_all

lemma terminate_cluster_steps:
  "\<exists>es. steps s es (snd (terminate_cluster env mr s)) \<and> (\<forall>e\<in>set es. \<not> is_sky_launch e)"
proof -
  let ?r = "call_get_handle_from_cluster_name env s"
  have 1: "steps s [GetHandle (fst ?r)] (snd ?r)" by (rule steps_calls(3))
  show ?thesis
  proof (cases "fst ?r")
    case None
    then have "terminate_cluster env mr s = (Return (), snd ?r)"
      by (simp add: terminate_cluster_def Let_def)
    with 1 show ?thesis by (intro exI[of _ "[GetHandle (fst ?r)]"]) simp
  next
    case (Some h)
    let ?t = "terminate_loop env h mr 0 (snd ?r)"
    from Some have eq: "terminate_cluster env mr s = ?t"
      by (simp add: terminate_cluster_def Let_def)
    from terminate_loop_trace[of "snd ?r" env h mr 0] obtain k where
      u: "unchanged (snd ?r) (snd ?t)" and
      tr: "trace (snd ?t) = trace (snd ?r) @ replicate k (Teardown h False) @ [Teardown h True]
       \<or> trace (snd ?t) = trace (snd ?r) @ replicate k (Teardown h False)" by blast
    from tr show ?thesis
    proof
      assume "trace (snd ?t) = trace (snd ?r) @ replicate k (Teardown h False) @ [Teardown h True]"
      with u have "steps (snd ?r) (replicate k (Teardown h False) @ [Teardown h True]) (snd ?t)"
        by (simp add: steps_def)
      from steps_trans[OF 1 this] show ?thesis unfolding eq
        by (intro exI[of _ "[GetHandle (fst ?r)] @ replicate k (Teardown h False)
              @ [Teardown h True]"]) auto
    next
      assume "trace (snd ?t) = trace (snd ?r) @ replicate k (Teardown h False)"
      with u have "steps (snd ?r) (replicate k (Teardown h False)) (snd ?t)"
        by (simp add: steps_def)
      from steps_trans[OF 1 this] show ?thesis unfolding eq
        by (intro exI[of _ "[GetHandle (fst ?r)] @ replicate k (Teardown h False)"]) auto
    qed
  qed
qed

lemma terminate_cluster_grows: "grows s (snd (terminate_cluster env mr s))"
  using terminate_cluster_steps[of s env mr] steps_facts(2) by blast

lemma cross_region_recover_loop_grows:
  "grows s (snd (cross_region_recover_loop env fuel s))"
proof (induction fuel arbitrary: s)
  case 0
  show ?case by simp
next
  case (Suc fuel)
  let ?r1 = "terminate_cluster env 3 s"
  let ?r2 = "launch_impl env fuel (Some 3) False (snd ?r1)"
  let ?r3 = "call_get_handle_from_cluster_name env (snd ?r2)"
  let ?s4 = "case fst ?r3 of None \<Rightarrow> snd ?r3
             | Some h' \<Rightarrow> (snd ?r3)\<lparr>blocked_regions :=
                   insert (region (launched_resources h')) (blocked_regions (snd ?r3)),
                 blocked_zones :=
                   insert (zone (launched_resources h')) (blocked_zones (snd ?r3))\<rparr>"
  let ?s5 = "call_time_sleep env RETRY_INIT_GAP_SECONDS ?s4"
  have g1: "grows s (snd ?r1)" by (rule terminate_cluster_grows)
  have g2: "grows (snd ?r1) (snd ?r2)" unfolding launch_impl_def by (rule launch_loop_grows)
  note g12 = grows_trans(1)[OF g1 g2]
  have g3: "grows (snd ?r2) (snd ?r3)" by (rule steps_facts(2)[OF steps_calls(3)])
  have g4: "grows (snd ?r2) ?s4" using g3 by (simp split: option.splits)
  note g124 = grows_trans(1)[OF g12 g4]
  have g5: "grows ?s4 ?s5" by (rule steps_facts(2)[OF steps_calls(5)])
  note g1245 = grows_trans(1)[OF g124 g5]
  note g6 = grows_trans(1)[OF g1245 Suc.IH[of ?s5]]
  show ?case
    using g1 g12 g124 g6
    by (simp add: Let_def split: outcome.splits option.splits)
qed


lemma launch_loop_first:
  "(\<exists>e. fst (signal_handler env (world s)) = Raises e
        \<and> fst (launch_loop env (Suc fuel) mr rof cnt bk s) = Raise e
        \<and> new_events s (snd (launch_loop env (Suc fuel) mr rof cnt bk s))
            = [SignalHandler (Raises e)])
   \<or> (fst (signal_handler env (world s)) = Value ()
      \<and> (\<exists>rest. new_events s (snd (launch_loop env (Suc fuel) mr rof cnt bk s)) =
            SignalHandler (Value ())
            # SkyLaunch (blocked_regions s) (blocked_zones s)
                (fst (sky_launch env (dag s) (cluster_name s) (blocked_regions s)
                       (blocked_zones s) (snd (signal_handler env (world s)))))
            # rest))"
proof -
  let ?it = "launch_iteration env mr rof cnt bk s"
  let ?rep = "fst (sky_launch env (dag s) (cluster_name s) (blocked_regions s)
                       (blocked_zones s) (snd (signal_handler env (world s))))"
  from launch_iteration_shape[of env s mr rof cnt bk] show ?thesis
  proof (elim disjE exE conjE)
    fix e
    assume sg: "fst (signal_handler env (world s)) = Raises e"
      and d: "fst ?it = Done (Raise e)"
      and ev: "new_events s (snd ?it) = [SignalHandler (Raises e)]"
    show ?thesis unfolding launch_loop_Done[OF d] using sg ev by simp
  next
    fix aft
    assume sg: "fst (signal_handler env (world s)) = Value ()"
      and ev: "new_events s (snd ?it) =
          SignalHandler (Value ()) # SkyLaunch (blocked_regions s) (blocked_zones s) ?rep # aft"
    have "\<exists>rest. new_events s (snd (launch_loop env (Suc fuel) mr rof cnt bk s)) =
        SignalHandler (Value ()) # SkyLaunch (blocked_regions s) (blocked_zones s) ?rep # rest"
    proof (cases "fst ?it")
      case (Done r)
      show ?thesis unfolding launch_loop_Done[OF Done] using ev by simp
    next
      case (Again bk')
      let ?r = "launch_loop env fuel mr rof (cnt + 1) bk' (snd ?it)"
      have "new_events s (snd ?r) = new_events s (snd ?it) @ new_events (snd ?it) (snd ?r)"
        by (rule grows_trans(2)[OF launch_iteration_grows launch_loop_grows])
      then show ?thesis unfolding launch_loop_Again[OF Again] using ev by simp
    qed
    with sg show ?thesis by blast
  qed
qed

lemma launch_impl_first_launch:
  "first_launch (new_events s (snd (launch_impl env fuel mr rof s)))
     = Some (blocked_regions s, blocked_zones s)
   \<or> (first_launch (new_events s (snd (launch_impl env fuel mr rof s))) = None
      \<and> fst (launch_impl env fuel mr rof s) \<noteq> Return None)"
proof (cases fuel)
  case 0
  then show ?thesis by (simp add: launch_impl_def)
next
  case (Suc n)
  from launch_loop_first[of env s n mr rof 0 "Backoff env RETRY_INIT_GAP_SECONDS"]
  show ?thesis unfolding launch_impl_def Suc by (elim disjE exE conjE) simp_all
qed

lemma cross_region_recover_loop_cases:
  "(fst (terminate_cluster env 3 s) \<noteq> Return ()
      \<and> snd (cross_region_recover_loop env (Suc fuel) s) = snd (terminate_cluster env 3 s))
   \<or> (fst (terminate_cluster env 3 s) = Return ()
      \<and> fst (launch_impl env fuel (Some 3) False (snd (terminate_cluster env 3 s))) \<noteq> Return None
      \<and> snd (cross_region_recover_loop env (Suc fuel) s) =
          snd (launch_impl env fuel (Some 3) False (snd (terminate_cluster env 3 s))))
   \<or> (fst (terminate_cluster env 3 s) = Return ()
      \<and> fst (launch_impl env fuel (Some 3) False (snd (terminate_cluster env 3 s))) = Return None
      \<and> grows (snd (launch_impl env fuel (Some 3) False (snd (terminate_cluster env 3 s))))
           (snd (cross_region_recover_loop env (Suc fuel) s)))"
proof -
  let ?r1 = "terminate_cluster env 3 s"
  let ?r2 = "launch_impl env fuel (Some 3) False (snd ?r1)"
  let ?r3 = "call_get_handle_from_cluster_name env (snd ?r2)"
  let ?s4 = "case fst ?r3 of None \<Rightarrow> snd ?r3
             | Some h' \<Rightarrow> (snd ?r3)\<lparr>blocked_regions :=
                   insert (region (launched_resources h')) (blocked_regions (snd ?r3)),
                 blocked_zones :=
                   insert (zone (launched_resources h')) (blocked_zones (snd ?r3))\<rparr>"
  let ?s5 = "call_time_sleep env RETRY_INIT_GAP_SECONDS ?s4"
  have g3: "grows (snd ?r2) (snd ?r3)" by (rule steps_facts(2)[OF steps_calls(3)])
  have g4: "grows (snd ?r2) ?s4" using g3 by (simp split: option.splits)
  have g5: "grows ?s4 ?s5" by (rule steps_facts(2)[OF steps_calls(5)])
  note g45 = grows_trans(1)[OF g4 g5]
  note g6 = grows_trans(1)[OF g45 cross_region_recover_loop_grows[of ?s5 env fuel]]
  show ?thesis
    using g4 g6 by (simp add: Let_def split: outcome.splits option.splits)
qed


lemma cross_region_recover_loop_first_launch:
  "first_launch (new_events s (snd (cross_region_recover_loop env fuel s))) = None
   \<or> first_launch (new_events s (snd (cross_region_recover_loop env fuel s)))
       = Some (blocked_regions s, blocked_zones s)"
proof (cases fuel)
  case 0
  then show ?thesis by simp
next
  case (Suc n)
  let ?r1 = "terminate_cluster env 3 s"
  let ?r2 = "launch_impl env n (Some 3) False (snd ?r1)"
  let ?fin = "snd (cross_region_recover_loop env (Suc n) s)"
  from terminate_cluster_steps[of s env 3] obtain es where
    st: "steps s es (snd ?r1)" and nl: "\<forall>e\<in>set es. \<not> is_sky_launch e" by blast
  note e1 = steps_facts(3)[OF st]
  note f1 = first_launch_none[OF nl]
  from unchanged_fields[OF steps_facts(1)[OF st]]
  have b: "blocked_regions (snd ?r1) = blocked_regions s"
    "blocked_zones (snd ?r1) = blocked_zones s" by simp_all
  have g2: "grows (snd ?r1) (snd ?r2)" unfolding launch_impl_def by (rule launch_loop_grows)
  note e12 = grows_trans(2)[OF steps_facts(2)[OF st] g2]
  note fl = launch_impl_first_launch[of "snd ?r1" env n "Some 3" False]
  from cross_region_recover_loop_cases[of env s n] show ?thesis unfolding Suc
  proof (elim disjE conjE)
    assume "?fin = snd ?r1"
    then show "first_launch (new_events s ?fin) = None
       \<or> first_launch (new_events s ?fin) = Some (blocked_regions s, blocked_zones s)"
      using e1 f1 by simp
  next
    assume "?fin = snd ?r2"
    then show "first_launch (new_events s ?fin) = None
       \<or> first_launch (new_events s ?fin) = Some (blocked_regions s, blocked_zones s)"
      using e12 e1 f1 fl b by (auto simp: first_launch_append)
  next
    assume rn: "fst ?r2 = Return None" and g: "grows (snd ?r2) ?fin"
    have "new_events s ?fin = new_events s (snd ?r2) @ new_events (snd ?r2) ?fin"
      by (rule grows_trans(2)[OF grows_trans(1)[OF steps_facts(2)[OF st] g2] g])
    moreover from fl rn b have "first_launch (new_events (snd ?r1) (snd ?r2))
        = Some (blocked_regions s, blocked_zones s)" by simp
    ultimately show "first_launch (new_events s ?fin) = None
       \<or> first_launch (new_events s ?fin) = Some (blocked_regions s, blocked_zones s)"
      using e12 e1 f1 by (simp add: first_launch_append)
  qed
qed

section \<open>\<open>CrossRegion.recover\<close> and the region of the preemption\<close>

text \<open>
  C7. Let \<open>recover\<close> of \<open>CrossRegion\<close> find the handle \<open>h\<close> of the preempted cluster, and let
  \<open>cancel_jobs\<close> return or raise \<open>CommandError\<close>. Then the loop of \<open>recover\<close> is entered
  with the zone of \<open>h\<close> added to the blocked zones and, when \<open>_CROSS_REGION\<close> is set in the
  environment, the region of \<open>h\<close> added to the blocked regions; when it is not set, the
  blocked regions are as before. No launch is made with other blocklists before: the first
  launch of the run, if there is one, is passed exactly these two sets. There is one when
  the teardown that opens the loop returns and the signal check after it returns: the next
  call is then \<open>sky.launch\<close> with these two sets.
\<close>

theorem cross_region_blocks_before_relaunch:
  "(let c = cancel_jobs env (Some h)
              (snd (get_handle_from_cluster_name env (cluster_name s) (world s)));
        br = (if os_environ_get env ''_CROSS_REGION'' \<noteq> None
              then insert (region (launched_resources h)) (blocked_regions s)
              else blocked_regions s);
        bz = insert (zone (launched_resources h)) (blocked_zones s);
        s4 = s\<lparr>blocked_regions := br, blocked_zones := bz, world := snd c,
               trace := trace s @ [GetHandle (Some h), CancelJobs (Some h) (fst c)]\<rparr>;
        s5 = snd (terminate_cluster env 3 s4)
    in fst (get_handle_from_cluster_name env (cluster_name s) (world s)) = Some h
       \<and> uncaught_by_cancel (fst c) = None \<longrightarrow>
         cross_region_recover env fuel s = cross_region_recover_loop env fuel s4
         \<and> (first_launch (new_events s (snd (cross_region_recover env fuel s))) = None
            \<or> first_launch (new_events s (snd (cross_region_recover env fuel s)))
                = Some (br, bz))
         \<and> (fst (terminate_cluster env 3 s4) = Return ()
            \<and> fst (signal_handler env (world s5)) = Value () \<longrightarrow>
              (\<exists>rest. new_events s5 (snd (cross_region_recover env (Suc (Suc fuel)) s)) =
                 SignalHandler (Value ())
                 # SkyLaunch br bz
                     (fst (sky_launch env (dag s) (cluster_name s) br bz
                            (snd (signal_handler env (world s5)))))
                 # rest)))"
proof -
  let ?c = "cancel_jobs env (Some h)
              (snd (get_handle_from_cluster_name env (cluster_name s) (world s)))"
  let ?br = "if os_environ_get env ''_CROSS_REGION'' \<noteq> None
              then insert (region (launched_resources h)) (blocked_regions s)
              else blocked_regions s"
  let ?bz = "insert (zone (launched_resources h)) (blocked_zones s)"
  let ?s4 = "s\<lparr>blocked_regions := ?br, blocked_zones := ?bz, world := snd ?c,
               trace := trace s @ [GetHandle (Some h), CancelJobs (Some h) (fst ?c)]\<rparr>"
  let ?s5 = "snd (terminate_cluster env 3 ?s4)"
  have "fst (get_handle_from_cluster_name env (cluster_name s) (world s)) = Some h
       \<and> uncaught_by_cancel (fst ?c) = None \<longrightarrow>
         cross_region_recover env fuel s = cross_region_recover_loop env fuel ?s4
         \<and> (first_launch (new_events s (snd (cross_region_recover env fuel s))) = None
            \<or> first_launch (new_events s (snd (cross_region_recover env fuel s)))
                = Some (?br, ?bz))
         \<and> (fst (terminate_cluster env 3 ?s4) = Return ()
            \<and> fst (signal_handler env (world ?s5)) = Value () \<longrightarrow>
              (\<exists>rest. new_events ?s5 (snd (cross_region_recover env (Suc (Suc fuel)) s)) =
                 SignalHandler (Value ())
                 # SkyLaunch ?br ?bz
                     (fst (sky_launch env (dag s) (cluster_name s) ?br ?bz
                            (snd (signal_handler env (world ?s5)))))
                 # rest))"
  proof (intro impI)
    assume a: "fst (get_handle_from_cluster_name env (cluster_name s) (world s)) = Some h
       \<and> uncaught_by_cancel (fst ?c) = None"
    have eq: "\<And>n. cross_region_recover env n s = cross_region_recover_loop env n ?s4"
      using a by (cases s) (simp add: cross_region_recover_def calls Let_def)
    have f4: "blocked_regions ?s4 = ?br" "blocked_zones ?s4 = ?bz" "dag ?s4 = dag s"
      "cluster_name ?s4 = cluster_name s"
      "trace ?s4 = trace s @ [GetHandle (Some h), CancelJobs (Some h) (fst ?c)]"
      by simp_all
    have g4: "grows s ?s4" and e4: "new_events s ?s4 = [GetHandle (Some h), CancelJobs (Some h) (fst ?c)]"
      by (rule run_facts[OF f4(5)])+
    have 2: "first_launch (new_events s (snd (cross_region_recover env fuel s))) = None
            \<or> first_launch (new_events s (snd (cross_region_recover env fuel s)))
                = Some (?br, ?bz)"
    proof -
      let ?fin = "snd (cross_region_recover_loop env fuel ?s4)"
      have "new_events s ?fin = new_events s ?s4 @ new_events ?s4 ?fin"
        by (rule grows_trans(2)[OF g4 cross_region_recover_loop_grows])
      then have "first_launch (new_events s ?fin) = first_launch (new_events ?s4 ?fin)"
        unfolding e4 by simp
      with cross_region_recover_loop_first_launch[of ?s4 env fuel] show ?thesis
        unfolding eq f4(1) f4(2) by simp
    qed
    have 3: "fst (terminate_cluster env 3 ?s4) = Return ()
            \<and> fst (signal_handler env (world ?s5)) = Value () \<longrightarrow>
              (\<exists>rest. new_events ?s5 (snd (cross_region_recover env (Suc (Suc fuel)) s)) =
                 SignalHandler (Value ())
                 # SkyLaunch ?br ?bz
                     (fst (sky_launch env (dag s) (cluster_name s) ?br ?bz
                            (snd (signal_handler env (world ?s5)))))
                 # rest)"
    proof
      assume h: "fst (terminate_cluster env 3 ?s4) = Return ()
            \<and> fst (signal_handler env (world ?s5)) = Value ()"
      let ?r2 = "launch_impl env (Suc fuel) (Some 3) False ?s5"
      let ?fin = "snd (cross_region_recover_loop env (Suc (Suc fuel)) ?s4)"
      let ?rep = "fst (sky_launch env (dag s) (cluster_name s) ?br ?bz
                            (snd (signal_handler env (world ?s5))))"
      from unchanged_fields[OF terminate_cluster_unchanged[of ?s4 env 3]] f4
      have f5: "blocked_regions ?s5 = ?br" "blocked_zones ?s5 = ?bz" "dag ?s5 = dag s"
        "cluster_name ?s5 = cluster_name s" by simp_all
      from launch_loop_first[of env ?s5 fuel "Some 3" False 0
          "Backoff env RETRY_INIT_GAP_SECONDS"] h
      obtain rest where l: "new_events ?s5 (snd ?r2) =
          SignalHandler (Value ()) # SkyLaunch ?br ?bz ?rep # rest"
        unfolding launch_impl_def f5 by auto
      from cross_region_recover_loop_cases[of env ?s4 "Suc fuel"] h
      have "?fin = snd ?r2 \<or> grows (snd ?r2) ?fin" by blast
      then have "\<exists>rest. new_events ?s5 ?fin =
          SignalHandler (Value ()) # SkyLaunch ?br ?bz ?rep # rest"
      proof
        assume "?fin = snd ?r2"
        with l show ?thesis by simp
      next
        assume g: "grows (snd ?r2) ?fin"
        have g2: "grows ?s5 (snd ?r2)" unfolding launch_impl_def by (rule launch_loop_grows)
        from grows_trans(2)[OF g2 g] l show ?thesis by simp
      qed
      then show "\<exists>rest. new_events ?s5 (snd (cross_region_recover env (Suc (Suc fuel)) s)) =
                 SignalHandler (Value ()) # SkyLaunch ?br ?bz ?rep # rest"
        unfolding eq .
    qed
    from eq[of fuel] 2 3
    show "cross_region_recover env fuel s = cross_region_recover_loop env fuel ?s4
         \<and> (first_launch (new_events s (snd (cross_region_recover env fuel s))) = None
            \<or> first_launch (new_events s (snd (cross_region_recover env fuel s)))
                = Some (?br, ?bz))
         \<and> (fst (terminate_cluster env 3 ?s4) = Return ()
            \<and> fst (signal_handler env (world ?s5)) = Value () \<longrightarrow>
              (\<exists>rest. new_events ?s5 (snd (cross_region_recover env (Suc (Suc fuel)) s)) =
                 SignalHandler (Value ())
                 # SkyLaunch ?br ?bz
                     (fst (sky_launch env (dag s) (cluster_name s) ?br ?bz
                            (snd (signal_handler env (world ?s5)))))
                 # rest))"
      by blast
  qed
  then show ?thesis unfolding Let_def .
qed


theorem cross_region_blocks_before_relaunch_witness:
  "cross_region_recover forced_env 2 (demo_state CrossRegion False) =
     (Return 1000,
      (demo_state CrossRegion False)
        \<lparr>blocked_regions := {''us-west1''}, blocked_zones := {''us-west1-a''}, world := 2,
         trace := [GetHandle (Some demo_handle), CancelJobs (Some demo_handle) (Value ()),
                   GetHandle (Some demo_handle), Teardown demo_handle True,
                   SignalHandler (Value ()), SkyLaunch {''us-west1''} {''us-west1-a''} Launched,
                   GetClusterFromName (Some 1), UpdateNumTriedLocations 7 1,
                   RefreshClusterStatus (Value UP), Sleep 5,
                   GetJobStatus (Value (Some (JOB_OTHER ''RUNNING''))),
                   GetJobTimestamp (Value 1000)]\<rparr>)
   \<and> cross_region_recover running_env 2 (demo_state CrossRegion False) =
     (Return 1000,
      (demo_state CrossRegion False)
        \<lparr>blocked_regions := {}, blocked_zones := {''us-west1-a''}, world := 2,
         trace := [GetHandle (Some demo_handle), CancelJobs (Some demo_handle) (Value ()),
                   GetHandle (Some demo_handle), Teardown demo_handle True,
                   SignalHandler (Value ()), SkyLaunch {} {''us-west1-a''} Launched,
                   GetClusterFromName (Some 1), UpdateNumTriedLocations 7 1,
                   RefreshClusterStatus (Value UP), Sleep 5,
                   GetJobStatus (Value (Some (JOB_OTHER ''RUNNING''))),
                   GetJobTimestamp (Value 1000)]\<rparr>)
   \<and> (\<exists>rest. new_events
          ((demo_state CrossRegion False)
           \<lparr>blocked_regions := {''us-west1''}, blocked_zones := {''us-west1-a''}, world := 1,
            trace := [GetHandle (Some demo_handle), CancelJobs (Some demo_handle) (Value ()),
                      GetHandle (Some demo_handle), Teardown demo_handle True]\<rparr>)
          (snd (cross_region_recover forced_env 2 (demo_state CrossRegion False))) =
        SignalHandler (Value ()) # SkyLaunch {''us-west1''} {''us-west1-a''} Launched # rest)"
proof -
  let ?s = "demo_state CrossRegion False"
  note ev = Let_def forced_env_def running_env_def demo_env_def demo_state_def demo_handle_def
    demo_resources_def uncaught_by_cancel_def eval_nat_numeral terminate_cluster_def
    terminate_loop.simps calls launch_impl_def launch_loop.simps(2) record_tried_locations_def
    poll_loop.simps
  from cross_region_blocks_before_relaunch
    [where env = forced_env and h = demo_handle and s = ?s and fuel = 2]
  have a: "cross_region_recover forced_env 2 ?s =
     (Return 1000,
      (demo_state CrossRegion False)
        \<lparr>blocked_regions := {''us-west1''}, blocked_zones := {''us-west1-a''}, world := 2,
         trace := [GetHandle (Some demo_handle), CancelJobs (Some demo_handle) (Value ()),
                   GetHandle (Some demo_handle), Teardown demo_handle True,
                   SignalHandler (Value ()), SkyLaunch {''us-west1''} {''us-west1-a''} Launched,
                   GetClusterFromName (Some 1), UpdateNumTriedLocations 7 1,
                   RefreshClusterStatus (Value UP), Sleep 5,
                   GetJobStatus (Value (Some (JOB_OTHER ''RUNNING''))),
                   GetJobTimestamp (Value 1000)]\<rparr>)"
    by (simp add: ev)
  from cross_region_blocks_before_relaunch
    [where env = running_env and h = demo_handle and s = ?s and fuel = 2]
  have b: "cross_region_recover running_env 2 ?s =
     (Return 1000,
      (demo_state CrossRegion False)
        \<lparr>blocked_regions := {}, blocked_zones := {''us-west1-a''}, world := 2,
         trace := [GetHandle (Some demo_handle), CancelJobs (Some demo_handle) (Value ()),
                   GetHandle (Some demo_handle), Teardown demo_handle True,
                   SignalHandler (Value ()), SkyLaunch {} {''us-west1-a''} Launched,
                   GetClusterFromName (Some 1), UpdateNumTriedLocations 7 1,
                   RefreshClusterStatus (Value UP), Sleep 5,
                   GetJobStatus (Value (Some (JOB_OTHER ''RUNNING''))),
                   GetJobTimestamp (Value 1000)]\<rparr>)"
    by (simp add: ev)
  from cross_region_blocks_before_relaunch
    [where env = forced_env and h = demo_handle and s = ?s and fuel = 0]
  have c: "\<exists>rest. new_events
          ((demo_state CrossRegion False)
           \<lparr>blocked_regions := {''us-west1''}, blocked_zones := {''us-west1-a''}, world := 1,
            trace := [GetHandle (Some demo_handle), CancelJobs (Some demo_handle) (Value ()),
                      GetHandle (Some demo_handle), Teardown demo_handle True]\<rparr>)
          (snd (cross_region_recover forced_env 2 ?s)) =
        SignalHandler (Value ()) # SkyLaunch {''us-west1''} {''us-west1-a''} Launched # rest"
    by (simp add: Let_def forced_env_def running_env_def demo_env_def demo_state_def
        demo_handle_def demo_resources_def uncaught_by_cancel_def terminate_cluster_def
        terminate_loop.simps calls numeral_2_eq_2)
  from a b c show ?thesis by blast
qed

end
